theory Spec2Isabelle
  imports Complex_Main "HOL-Library.Char_ord" "HOL-Library.List_Lexorder"
begin

section \<open>Strings and paths\<close>

text \<open>
  A \<open>std::string\<close> is a \<open>string\<close> (a list of 8-bit characters). The path operations of
  Boost.Filesystem that \<open>AirspaceConverter.cpp\<close> calls are library code; they are written out
  here after the version 3 implementation on a POSIX system (the only separator is \<open>/\<close>),
  so that the functions of the converter can be followed call by call.
\<close>

text \<open>\<open>std::toupper\<close> in the classic locale, as \<open>boost::iequals\<close> uses it.\<close>

definition to_upper :: "char \<Rightarrow> char" where
  "to_upper c =
     (case map_of (zip ''abcdefghijklmnopqrstuvwxyz'' ''ABCDEFGHIJKLMNOPQRSTUVWXYZ'') c of
        Some u \<Rightarrow> u
      | None \<Rightarrow> c)"

text \<open>\<open>boost::iequals\<close>: same length and equal characters up to case.\<close>

definition iequals :: "string \<Rightarrow> string \<Rightarrow> bool" where
  "iequals a b = (map to_upper a = map to_upper b)"

text \<open>\<open>boost::ends_with\<close> (case sensitive).\<close>

definition ends_with :: "string \<Rightarrow> string \<Rightarrow> bool" where
  "ends_with s t = (length t \<le> length s \<and> drop (length s - length t) s = t)"

text \<open>
  A \<open>std::string\<close> built from \<open>const char*\<close> stops at the first NUL character;
  \<open>path::filename\<close> and \<open>path::extension\<close> build their results that way.
\<close>

definition NUL :: char where
  "NUL = CHR 0x00"

definition c_str :: "string \<Rightarrow> string" where
  "c_str s = takeWhile (\<lambda>c. c \<noteq> NUL) s"

text \<open>A string without NUL, as every file name handed over by the operating system is.\<close>

definition nul_free :: "string \<Rightarrow> bool" where
  "nul_free s = (NUL \<notin> set s)"

text \<open>\<open>std::string::rfind(c)\<close>: the index of the last occurrence, \<open>None\<close> for \<open>npos\<close>.\<close>

definition rfind :: "char \<Rightarrow> string \<Rightarrow> nat option" where
  "rfind c s =
     (if c \<in> set s then Some (length s - 1 - length (takeWhile (\<lambda>x. x \<noteq> c) (rev s)))
      else None)"

definition is_separator :: "char \<Rightarrow> bool" where
  "is_separator c = (c = CHR ''/'')"

text \<open>Boost's \<open>filename_pos(str, str.size())\<close>.\<close>

definition filename_pos :: "string \<Rightarrow> nat" where
  "filename_pos str =
     (if str = ''//'' then 0
      else if str \<noteq> [] \<and> is_separator (last str) then length str - 1
      else (case rfind CHR ''/'' str of
              None \<Rightarrow> 0
            | Some pos \<Rightarrow> if pos = 1 \<and> is_separator (str ! 0) then 0 else pos + 1))"

text \<open>
  Boost's \<open>is_root_separator(str, pos)\<close>, called with a separator at \<open>pos\<close>: move to the
  leftmost separator of the run, then recognise \<open>/...\<close> and \<open>//name/...\<close>.
\<close>

definition is_root_separator :: "string \<Rightarrow> nat \<Rightarrow> bool" where
  "is_root_separator str pos =
     (let pos' = pos - length (takeWhile is_separator (rev (take pos str))) in
      if pos' = 0 then True
      else if pos' < 3 \<or> \<not> is_separator (str ! 0) \<or> \<not> is_separator (str ! 1) then False
      else 2 + length (takeWhile (\<lambda>c. \<not> is_separator c) (drop 2 str)) = pos')"

definition path_filename :: "string \<Rightarrow> string" where
  "path_filename str =
     (let pos = filename_pos str in
      if str \<noteq> [] \<and> pos \<noteq> 0 \<and> is_separator (str ! pos) \<and> \<not> is_root_separator str pos
      then ''.''
      else c_str (drop pos str))"

definition extension :: "string \<Rightarrow> string" where
  "extension p =
     (let name = path_filename p in
      if name = ''.'' \<or> name = ''..'' then []
      else (case rfind CHR ''.'' name of
              None \<Rightarrow> []
            | Some pos \<Rightarrow> c_str (drop pos name)))"

definition stem :: "string \<Rightarrow> string" where
  "stem p =
     (let name = path_filename p in
      if name = ''.'' \<or> name = ''..'' then name
      else (case rfind CHR ''.'' name of
              None \<Rightarrow> name
            | Some pos \<Rightarrow> take pos name))"

definition replace_extension :: "string \<Rightarrow> string \<Rightarrow> string" where
  "replace_extension p new_extension =
     (let p' = take (length p - length (extension p)) p in
      if new_extension = [] then p'
      else (if hd new_extension \<noteq> CHR ''.'' then p' @ ''.'' else p') @ new_extension)"

text \<open>\<open>path::operator/\<close>: a separator is added unless one is already there.\<close>

definition path_append :: "string \<Rightarrow> string \<Rightarrow> string" where
  "path_append p q =
     (if q = [] then p
      else if \<not> is_separator (hd q) \<and> p \<noteq> [] \<and> \<not> is_separator (last p) then p @ ''/'' @ q
      else p @ q)"

section \<open>Type resolver\<close>

text \<open>The enumeration \<open>AirspaceConverter::OutputType\<close>, with the enumerators the source names.\<close>

datatype OutputType =
  KMZ_Format | OpenAir_Format | SeeYou_Format | Polish_Format | Garmin_Format | Unknown_Format

definition DetermineType :: "string \<Rightarrow> OutputType" where
  "DetermineType filename =
     (if filename = [] then KMZ_Format
      else
        let outputExt = extension filename in
        if \<not> iequals outputExt ''.kmz'' then
          (if iequals outputExt ''.txt'' then OpenAir_Format
           else if iequals outputExt ''.cup'' then SeeYou_Format
           else if iequals outputExt ''.mp'' then Polish_Format
           else if iequals outputExt ''.img'' then Garmin_Format
           else Unknown_Format)
        else KMZ_Format)"

text \<open>
  \<open>PutTypeExtension\<close> returns its \<open>bool\<close> together with the value left in the reference
  parameter \<open>filename\<close>. The \<open>default\<close> label of its switch is reached by no enumerator.
\<close>

definition PutTypeExtension :: "OutputType \<Rightarrow> string \<Rightarrow> bool \<times> string" where
  "PutTypeExtension type filename =
     (if filename = [] then (False, filename)
      else (case type of
              KMZ_Format \<Rightarrow> (True, replace_extension filename ''.kmz'')
            | OpenAir_Format \<Rightarrow> (True, replace_extension filename ''.txt'')
            | SeeYou_Format \<Rightarrow> (True, replace_extension filename ''.cup'')
            | Polish_Format \<Rightarrow> (True, replace_extension filename ''.mp'')
            | Garmin_Format \<Rightarrow> (True, replace_extension filename ''.img'')
            | Unknown_Format \<Rightarrow> (False, filename)))"

section \<open>Altitude parser\<close>

text \<open>
  Modelled from the spec: the class \<open>Altitude\<close> is declared in \<open>Airspace.h\<close>, which
  is not among the sources. The spec gives it the modes unlimited, flight level, feet and
  metres, the last two with the reference flag (\<open>True\<close> for AMSL). The constructors stand
  for a default-constructed altitude and for one on which \<open>SetUnlimited\<close>,
  \<open>SetFlightLevel\<close>, \<open>SetAltFt\<close> or \<open>SetAltMt\<close> has been called.
\<close>

datatype Altitude =
  Unset
  | Unlimited
  | FlightLevel int
  | AltFt int bool
  | AltMt nat bool

text \<open>
  Modelled from the spec: of the class \<open>Airspace\<close> (also in \<open>Airspace.h\<close>) the
  functions below use the two altitudes only; the geometry is never read by them.
\<close>

record Airspace =
  airspaceName :: string
  topAltitude :: Altitude
  baseAltitude :: Altitude

text \<open>
  Modelled from the spec: \<open>isDigit\<close> is declared in \<open>AirspaceConverter.h\<close>, which is not
  among the sources; the spec scans "runs of digit and non-digit characters".
\<close>

definition isDigit :: "char \<Rightarrow> bool" where
  "isDigit c = (c \<in> set ''0123456789'')"

definition digit_value :: "char \<Rightarrow> nat" where
  "digit_value c =
     (case map_of (zip ''0123456789'' [0, 1, 2, 3, 4, 5, 6, 7, 8, 9]) c of
        Some d \<Rightarrow> d
      | None \<Rightarrow> 0)"

definition decimal :: "string \<Rightarrow> nat" where
  "decimal ds = foldl (\<lambda>n c. 10 * n + digit_value c) 0 ds"

fun bit_length :: "nat \<Rightarrow> nat" where
  "bit_length n = (if n = 0 then 0 else Suc (bit_length (n div 2)))"

text \<open>
  The \<open>double\<close> nearest to a natural number (IEEE 754 binary64, ties to even), \<open>None\<close>
  when the number is too large for a finite \<open>double\<close>. Below \<open>2 ^ 53\<close> it is the number.
\<close>

definition to_double :: "nat \<Rightarrow> nat option" where
  "to_double n =
     (if n < 2 ^ 53 then Some n
      else
        let e = bit_length n - 53;
            q = n div 2 ^ e;
            r = n mod 2 ^ e;
            q' = (if 2 * r > 2 ^ e \<or> (2 * r = 2 ^ e \<and> odd q) then q + 1 else q)
        in if q' * 2 ^ e \<ge> 2 ^ 1024 then None else Some (q' * 2 ^ e))"

text \<open>
  \<open>std::stod\<close> on the strings \<open>ParseAltitude\<close> hands to it. Such a string starts with
  the digits of a numeric run and holds at most one more character, so the number read is
  the decimal value of the leading digits. \<open>None\<close> stands for the exceptions
  \<open>std::invalid_argument\<close> (no digit to read) and \<open>std::out_of_range\<close>.
\<close>

definition stod :: "string \<Rightarrow> nat option" where
  "stod str =
     (let ds = takeWhile isDigit str in
      if ds = [] then None else to_double (decimal ds))"

text \<open>
  The cast \<open>(int)value\<close>. Its behaviour is undefined when the value does not fit a 32-bit
  \<open>int\<close>; \<open>None\<close> stands for that.
\<close>

definition to_int :: "nat \<Rightarrow> int option" where
  "to_int v = (if v < 2 ^ 31 then Some (int v) else None)"

text \<open>
  The local variables of \<open>ParseAltitude\<close>: \<open>val\<close> is \<open>value\<close> and \<open>s_pos\<close> is \<open>s\<close>, the
  index where the current run starts.
\<close>

record pstate =
  val :: nat
  isFL :: bool
  isAMSL :: bool
  valueFound :: bool
  typeFound :: bool
  isInFeet :: bool
  unitFound :: bool
  isUnlimited :: bool
  s_pos :: nat
  isNumber :: bool

text \<open>The branch \<open>if (isNumber)\<close> of the loop body; \<open>None\<close> is \<open>return false\<close>.\<close>

definition number_token :: "pstate \<Rightarrow> string \<Rightarrow> pstate option" where
  "number_token st str =
     (if \<not> valueFound st then
        (case stod str of
           None \<Rightarrow> None
         | Some v \<Rightarrow> Some (st\<lparr>val := v, valueFound := True\<rparr>))
      else None)"

text \<open>The \<open>else\<close> branch of \<open>if (isNumber)\<close>.\<close>

definition word_token :: "pstate \<Rightarrow> string \<Rightarrow> pstate option" where
  "word_token st str =
     (if \<not> typeFound st then
        (if valueFound st then
           (if iequals str ''AGL'' \<or> iequals str ''AGND'' \<or> iequals str ''ASFC'' \<or>
               iequals str ''GND'' \<or> iequals str ''SFC''
            then Some (st\<lparr>isAMSL := False, typeFound := True\<rparr>)
            else if iequals str ''MSL'' \<or> iequals str ''AMSL'' \<or> iequals str ''ALT''
            then Some (st\<lparr>typeFound := True\<rparr>)
            else if \<not> unitFound st then
              (if iequals str ''FT'' \<or> iequals str ''F'' then Some (st\<lparr>unitFound := True\<rparr>)
               else if iequals str ''M'' \<or> iequals str ''MT''
               then Some (st\<lparr>isInFeet := False, unitFound := True\<rparr>)
               else Some st)
            else Some st)
         else
           (if iequals str ''FL'' then Some (st\<lparr>isFL := True, typeFound := True\<rparr>)
            else if iequals str ''GND'' \<or> iequals str ''SFC''
            then Some (st\<lparr>isAMSL := False, typeFound := True, valueFound := True,
                            unitFound := True\<rparr>)
            else if iequals str ''MSL'' \<or> iequals str ''AMSL''
            then Some (st\<lparr>typeFound := True, valueFound := True, unitFound := True\<rparr>)
            else if iequals str ''UNLIM'' \<or> iequals str ''UNLIMITED'' \<or> iequals str ''UNL''
            then Some (st\<lparr>typeFound := True, valueFound := True, unitFound := True,
                            isUnlimited := True\<rparr>)
            else Some st))
      else if \<not> unitFound st \<and> \<not> typeFound st then None
      else Some st)"

text \<open>
  The \<open>for\<close> loop from index \<open>i\<close> on. \<open>None\<close> is \<open>return false\<close>; \<open>Some\<close> is the state
  when the loop is left, by its condition or by \<open>break\<close>. After a separator the source
  increments \<open>i\<close> itself, so the next iteration starts two characters on; when the
  separator is the last character, \<open>s\<close> is set past the end and the loop is over.
\<close>

function scan_from :: "string \<Rightarrow> nat \<Rightarrow> pstate \<Rightarrow> pstate option" where
  "scan_from text i st =
     (if \<not> i < length text then Some st
      else
        let c = text ! i;
            isLast = (i = length text - 1);
            isSep = (c = CHR '' '' \<or> c = CHR ''='')
        in
        if isDigit c \<noteq> isNumber st \<or> isSep \<or> isLast then
          (let str = (if isLast then drop (s_pos st) text
                      else take (i - s_pos st) (drop (s_pos st) text)) in
           case (if isNumber st then number_token st str else word_token st str) of
             None \<Rightarrow> None
           | Some st' \<Rightarrow>
               if valueFound st' \<and> typeFound st' \<and> unitFound st' then Some st'
               else if isSep then
                 (if i + 1 < length text
                  then scan_from text (i + 2)
                         (st'\<lparr>s_pos := i + 1, isNumber := isDigit (text ! (i + 1))\<rparr>)
                  else Some (st'\<lparr>s_pos := i + 1\<rparr>))
               else scan_from text (i + 1) (st'\<lparr>s_pos := i, isNumber := \<not> isNumber st'\<rparr>))
        else scan_from text (i + 1) st)"
  by pat_completeness auto
termination
  by (relation "measure (\<lambda>(text, i, st). length text - i)") auto

text \<open>The initial values of the locals and the whole loop, for a text that is not empty.\<close>

definition scan :: "string \<Rightarrow> pstate option" where
  "scan text =
     scan_from text 1
       \<lparr>val = 0, isFL = False, isAMSL = True, valueFound = False, typeFound = False,
        isInFeet = True, unitFound = False, isUnlimited = False, s_pos = 0,
        isNumber = isDigit (text ! 0)\<rparr>"

definition make_altitude :: "pstate \<Rightarrow> Altitude option" where
  "make_altitude st =
     (if isUnlimited st then Some Unlimited
      else if isFL st then map_option FlightLevel (to_int (val st))
      else if isInFeet st then map_option (\<lambda>v. AltFt v (isAMSL st)) (to_int (val st))
      else Some (AltMt (val st) (isAMSL st)))"

text \<open>\<open>isTop ? airspace.SetTopAltitude(alt) : airspace.SetBaseAltitude(alt)\<close>\<close>

definition SetAltitude :: "bool \<Rightarrow> Altitude \<Rightarrow> Airspace \<Rightarrow> Airspace" where
  "SetAltitude isTop alt airspace =
     (if isTop then airspace\<lparr>topAltitude := alt\<rparr> else airspace\<lparr>baseAltitude := alt\<rparr>)"

text \<open>
  \<open>ParseAltitude\<close> returns its \<open>bool\<close> and the airspace as it leaves it. The outer
  \<open>None\<close> is undefined behaviour, which only the cast to \<open>int\<close> can cause.
\<close>

definition ParseAltitude :: "string \<Rightarrow> bool \<Rightarrow> Airspace \<Rightarrow> (bool \<times> Airspace) option" where
  "ParseAltitude text isTop airspace =
     (if text = [] then Some (False, airspace)
      else
        case scan text of
          None \<Rightarrow> Some (False, airspace)
        | Some st \<Rightarrow>
            if \<not> valueFound st then Some (False, airspace)
            else (case make_altitude st of
                    None \<Rightarrow> None
                  | Some alt \<Rightarrow> Some (True, SetAltitude isTop alt airspace)))"

section \<open>Conversion orchestrator\<close>

text \<open>
  \<open>Airfield.h\<close> gives the fields of a waypoint (the arguments its constructor hands to
  \<open>Waypoint\<close>) and the three an airfield adds. Coordinates are \<open>double\<close>s, taken as reals.
\<close>

record Waypoint =
  longName :: string
  shortName :: string
  country :: string
  latitude :: real
  longitude :: real
  altitude :: real
  style :: int
  description :: string

record Airfield = Waypoint +
  runwayDir :: int
  runwayLength :: int
  radioFreq :: string

text \<open>What a \<open>Waypoint*\<close> of the collection points to.\<close>

datatype WaypointPtr = IsWaypoint Waypoint | IsAirfield Airfield

fun GetPosition :: "WaypointPtr \<Rightarrow> real \<times> real" where
  "GetPosition (IsWaypoint p) = (latitude p, longitude p)"
| "GetPosition (IsAirfield p) = (latitude p, longitude p)"

text \<open>
  A \<open>std::multimap<int, T>\<close> is the list of its entries in iteration order. The waypoints
  are held by value: the \<open>delete\<close> of each stored pointer is not modelled.
\<close>

type_synonym airspaces = "(int \<times> Airspace) list"
type_synonym waypoints = "(int \<times> WaypointPtr) list"

text \<open>\<open>Geometry::Limits\<close>: top and bottom latitude, left and right longitude.\<close>

type_synonym Limits = "real \<times> real \<times> real \<times> real"

text \<open>An entry of a \<open>boost::filesystem::directory_iterator\<close>.\<close>

record dir_entry =
  entry_path :: string
  is_regular_file :: bool
  file_size :: nat

text \<open>
  The collaborators of the converter, none of them among the sources: the readers and
  writers of each format, the external tool, the terrain maps of \<open>KML\<close>, the file system and
  \<open>Geometry::Limits\<close>. Whatever lies outside the converter (files, static data of the
  other classes) is a world of type \<open>'w\<close> that every call may read and change. A reader
  gets the collections its object was constructed on and returns them as it leaves them.
  \<open>NDEBUG\<close> tells whether \<open>assert\<close> is compiled out. Logging is not modelled.
\<close>

record 'w env =
  NDEBUG :: bool
  OpenAir_Read :: "string \<Rightarrow> airspaces \<Rightarrow> 'w \<Rightarrow> bool \<times> airspaces \<times> 'w"
  OpenAIP_ReadAirspaces ::
    "string \<Rightarrow> airspaces \<Rightarrow> waypoints \<Rightarrow> 'w \<Rightarrow> bool \<times> airspaces \<times> waypoints \<times> 'w"
  KML_ReadKMZ ::
    "bool \<Rightarrow> string \<Rightarrow> airspaces \<Rightarrow> waypoints \<Rightarrow> 'w \<Rightarrow> bool \<times> airspaces \<times> waypoints \<times> 'w"
  KML_ReadKML ::
    "bool \<Rightarrow> string \<Rightarrow> airspaces \<Rightarrow> waypoints \<Rightarrow> 'w \<Rightarrow> bool \<times> airspaces \<times> waypoints \<times> 'w"
  SeeYou_Read :: "string \<Rightarrow> waypoints \<Rightarrow> 'w \<Rightarrow> bool \<times> waypoints \<times> 'w"
  OpenAIP_ReadWaypoints ::
    "string \<Rightarrow> airspaces \<Rightarrow> waypoints \<Rightarrow> 'w \<Rightarrow> bool \<times> airspaces \<times> waypoints \<times> 'w"
  KML_Write :: "string \<Rightarrow> airspaces \<Rightarrow> waypoints \<Rightarrow> 'w \<Rightarrow> bool \<times> 'w"
  OpenAir_Write :: "bool \<Rightarrow> bool \<Rightarrow> string \<Rightarrow> airspaces \<Rightarrow> 'w \<Rightarrow> bool \<times> 'w"
  SeeYou_Write :: "string \<Rightarrow> waypoints \<Rightarrow> 'w \<Rightarrow> bool \<times> 'w"
  Polish_Write :: "string \<Rightarrow> airspaces \<Rightarrow> 'w \<Rightarrow> bool \<times> 'w"
  cGPSmapper :: "string \<Rightarrow> string \<Rightarrow> 'w \<Rightarrow> bool \<times> 'w"
  KML_AddTerrainMap :: "string \<Rightarrow> 'w \<Rightarrow> bool \<times> 'w"
  KML_ClearTerrainMaps :: "'w \<Rightarrow> 'w"
  is_directory :: "string \<Rightarrow> 'w \<Rightarrow> bool"
  directory_entries :: "string \<Rightarrow> 'w \<Rightarrow> dir_entry list"
  Limits_IsValid :: "Limits \<Rightarrow> bool"
  Airspace_IsWithinLimits :: "Airspace \<Rightarrow> Limits \<Rightarrow> bool"
  Limits_IsPositionWithinLimits :: "Limits \<Rightarrow> real \<times> real \<Rightarrow> bool"

text \<open>The data members of \<open>AirspaceConverter\<close> that the source file uses.\<close>

record converter =
  conversionDone :: bool
  doNotCalculateArcs :: bool
  writeCoordinatesAsDDMMSS :: bool
  processLineStrings :: bool
  airspaces :: airspaces
  waypoints :: waypoints
  airspaceFiles :: "string list"
  waypointFiles :: "string list"
  terrainRasterMapFiles :: "string list"
  outputFile :: string

text \<open>The constructor: the four flags are false, the containers and strings empty.\<close>

definition AirspaceConverter :: converter where
  "AirspaceConverter =
     \<lparr>conversionDone = False, doNotCalculateArcs = False, writeCoordinatesAsDDMMSS = False,
      processLineStrings = False, airspaces = [], waypoints = [], airspaceFiles = [],
      waypointFiles = [], terrainRasterMapFiles = [], outputFile = []\<rparr>"

text \<open>
  Modelled from the spec: \<open>AddAirspaceFile\<close>, \<open>AddWaypointFile\<close> and \<open>GetOutputType\<close> are
  defined in \<open>AirspaceConverter.h\<close>, which is not among the sources. The first two add a
  path to the pending input file lists; the third resolves the output format from the
  extension of the output path.
\<close>

definition AddAirspaceFile :: "string \<Rightarrow> converter \<Rightarrow> converter" where
  "AddAirspaceFile inputFile st = st\<lparr>airspaceFiles := airspaceFiles st @ [inputFile]\<rparr>"

definition AddWaypointFile :: "string \<Rightarrow> converter \<Rightarrow> converter" where
  "AddWaypointFile inputFile st = st\<lparr>waypointFiles := waypointFiles st @ [inputFile]\<rparr>"

definition GetOutputType :: "converter \<Rightarrow> OutputType" where
  "GetOutputType st = DetermineType (outputFile st)"

text \<open>
  The switch of \<open>LoadAirspaces\<close> that suggests the output file. \<open>SeeYou_Format\<close> and
  \<open>Unknown_Format\<close> reach \<open>default: assert(false)\<close>, which aborts (\<open>None\<close>) or, with
  \<open>NDEBUG\<close>, falls through to the KMZ case.
\<close>

definition suggested_output :: "'w env \<Rightarrow> OutputType \<Rightarrow> string \<Rightarrow> string option" where
  "suggested_output E suggestedTypeForOutputFilename inputFile =
     (case suggestedTypeForOutputFilename of
        KMZ_Format \<Rightarrow> Some (replace_extension inputFile ''.kmz'')
      | OpenAir_Format \<Rightarrow> Some (replace_extension inputFile ''.txt'')
      | Polish_Format \<Rightarrow> Some (replace_extension inputFile ''.mp'')
      | Garmin_Format \<Rightarrow> Some (replace_extension inputFile ''.img'')
      | _ \<Rightarrow> if NDEBUG E then Some (replace_extension inputFile ''.kmz'') else None)"

text \<open>
  The loop of \<open>LoadAirspaces\<close> over the pending files; \<open>n0\<close> is
  \<open>initialAirspacesNumber\<close>. A file with an unknown extension is skipped.
\<close>

fun LoadAirspaces_files ::
  "'w env \<Rightarrow> OutputType \<Rightarrow> nat \<Rightarrow> string list \<Rightarrow> converter \<Rightarrow> 'w \<Rightarrow> (converter \<times> 'w) option"
where
  "LoadAirspaces_files E ty n0 [] st w = Some (st, w)"
| "LoadAirspaces_files E ty n0 (inputFile # rest) st w =
     (let ext = extension inputFile;
          r = (if iequals ext ''.txt'' then
                 (let (ok, a, w') = OpenAir_Read E inputFile (airspaces st) w
                  in Some (st\<lparr>airspaces := a\<rparr>, w'))
               else if iequals ext ''.aip'' then
                 (let (ok, a, p, w') =
                        OpenAIP_ReadAirspaces E inputFile (airspaces st) (waypoints st) w
                  in Some (st\<lparr>airspaces := a, waypoints := p\<rparr>, w'))
               else if iequals ext ''.kmz'' then
                 (let (ok, a, p, w') =
                        KML_ReadKMZ E (processLineStrings st) inputFile (airspaces st)
                          (waypoints st) w
                  in Some (st\<lparr>airspaces := a, waypoints := p\<rparr>, w'))
               else if iequals ext ''.kml'' then
                 (let (ok, a, p, w') =
                        KML_ReadKML E (processLineStrings st) inputFile (airspaces st)
                          (waypoints st) w
                  in Some (st\<lparr>airspaces := a, waypoints := p\<rparr>, w'))
               else None)
      in case r of
           None \<Rightarrow> LoadAirspaces_files E ty n0 rest st w
         | Some (st', w') \<Rightarrow>
             if length (airspaces st') > n0 \<and> outputFile st' = [] then
               (case suggested_output E ty inputFile of
                  None \<Rightarrow> None
                | Some out \<Rightarrow> LoadAirspaces_files E ty n0 rest (st'\<lparr>outputFile := out\<rparr>) w')
             else LoadAirspaces_files E ty n0 rest st' w')"

definition LoadAirspaces ::
  "'w env \<Rightarrow> OutputType \<Rightarrow> converter \<Rightarrow> 'w \<Rightarrow> (converter \<times> 'w) option"
where
  "LoadAirspaces E suggestedTypeForOutputFilename st w =
     (if airspaceFiles st = [] then Some (st, w)
      else
        let st1 = st\<lparr>conversionDone := False\<rparr> in
        case LoadAirspaces_files E suggestedTypeForOutputFilename (length (airspaces st1))
               (airspaceFiles st1) st1 w of
          None \<Rightarrow> None
        | Some (st2, w2) \<Rightarrow> Some (st2\<lparr>airspaceFiles := []\<rparr>, w2))"

definition UnloadAirspaces :: "converter \<Rightarrow> converter" where
  "UnloadAirspaces st = st\<lparr>conversionDone := False, airspaces := [], outputFile := []\<rparr>"

definition LoadTerrainRasterMaps :: "'w env \<Rightarrow> converter \<Rightarrow> 'w \<Rightarrow> converter \<times> 'w" where
  "LoadTerrainRasterMaps E st w =
     (if terrainRasterMapFiles st = [] then (st, w)
      else
        (st\<lparr>conversionDone := False, terrainRasterMapFiles := []\<rparr>,
         fold (\<lambda>demFile w'. snd (KML_AddTerrainMap E demFile w')) (terrainRasterMapFiles st) w))"

definition UnloadRasterMaps :: "'w env \<Rightarrow> converter \<Rightarrow> 'w \<Rightarrow> converter \<times> 'w" where
  "UnloadRasterMaps E st w = (st\<lparr>conversionDone := False\<rparr>, KML_ClearTerrainMaps E w)"

text \<open>The loop of \<open>LoadWaypoints\<close>; the counter it keeps is only logged.\<close>

fun LoadWaypoints_files ::
  "'w env \<Rightarrow> string list \<Rightarrow> converter \<Rightarrow> 'w \<Rightarrow> converter \<times> 'w"
where
  "LoadWaypoints_files E [] st w = (st, w)"
| "LoadWaypoints_files E (inputFile # rest) st w =
     (let ext = extension inputFile;
          r = (if iequals ext ''.cup'' then
                 (let (readOk, p, w') = SeeYou_Read E inputFile (waypoints st) w
                  in Some (readOk, st\<lparr>waypoints := p\<rparr>, w'))
               else if iequals ext ''.aip'' then
                 (let (readOk, a, p, w') =
                        OpenAIP_ReadWaypoints E inputFile (airspaces st) (waypoints st) w
                  in Some (readOk, st\<lparr>airspaces := a, waypoints := p\<rparr>, w'))
               else None)
      in case r of
           None \<Rightarrow> LoadWaypoints_files E rest st w
         | Some (readOk, st', w') \<Rightarrow>
             if readOk \<and> outputFile st' = [] then
               LoadWaypoints_files E rest
                 (st'\<lparr>outputFile := replace_extension inputFile ''.kmz''\<rparr>) w'
             else LoadWaypoints_files E rest st' w')"

definition LoadWaypoints :: "'w env \<Rightarrow> converter \<Rightarrow> 'w \<Rightarrow> converter \<times> 'w" where
  "LoadWaypoints E st w =
     (if waypointFiles st = [] then (st, w)
      else
        let (st', w') = LoadWaypoints_files E (waypointFiles st) (st\<lparr>conversionDone := False\<rparr>) w
        in (st'\<lparr>waypointFiles := []\<rparr>, w'))"

definition UnloadWaypoints :: "converter \<Rightarrow> converter" where
  "UnloadWaypoints st =
     (let st1 = st\<lparr>conversionDone := False, waypoints := []\<rparr>
      in if airspaces st1 = [] then st1\<lparr>outputFile := []\<rparr> else st1)"

text \<open>
  \<open>Convert\<close> returns \<open>conversionDone\<close>. \<open>None\<close> is an abort by \<open>assert\<close>: on an empty output
  file, or on an output type that is unknown; with \<open>NDEBUG\<close> the first is not checked and
  the second leaves the flag false.
\<close>

definition Convert :: "'w env \<Rightarrow> converter \<Rightarrow> 'w \<Rightarrow> (bool \<times> converter \<times> 'w) option" where
  "Convert E st0 w =
     (if outputFile st0 = [] \<and> \<not> NDEBUG E then None
      else
        let st = st0\<lparr>conversionDone := False\<rparr> in
        case GetOutputType st of
          KMZ_Format \<Rightarrow>
            (let (ok, w') = KML_Write E (outputFile st) (airspaces st) (waypoints st) w
             in Some (ok, st\<lparr>conversionDone := ok\<rparr>, w'))
        | OpenAir_Format \<Rightarrow>
            (let (ok, w') =
                   OpenAir_Write E (doNotCalculateArcs st) (writeCoordinatesAsDDMMSS st)
                     (outputFile st) (airspaces st) w
             in Some (ok, st\<lparr>conversionDone := ok\<rparr>, w'))
        | SeeYou_Format \<Rightarrow>
            (let (ok, w') = SeeYou_Write E (outputFile st) (waypoints st) w
             in Some (ok, st\<lparr>conversionDone := ok\<rparr>, w'))
        | Polish_Format \<Rightarrow>
            (let (ok, w') = Polish_Write E (outputFile st) (airspaces st) w
             in Some (ok, st\<lparr>conversionDone := ok\<rparr>, w'))
        | Garmin_Format \<Rightarrow>
            (let polishFile = replace_extension (outputFile st) ''.mp'';
                 (ok1, w1) = Polish_Write E polishFile (airspaces st) w
             in if \<not> ok1 then Some (False, st, w1)
                else
                  let (ok2, w2) = cGPSmapper E polishFile (outputFile st) w1
                  in Some (ok2, st\<lparr>conversionDone := ok2\<rparr>, w2))
        | Unknown_Format \<Rightarrow> if NDEBUG E then Some (False, st, w) else None)"

text \<open>
  What the writer of \<open>Convert\<close> reports: the result of the one \<open>Write\<close> call, and for the
  Garmin format that of the Polish writer and then of the external tool. It follows the
  words of the spec ("sets true only on writer success"), to be compared with the flag.
\<close>

definition writer_reports_success :: "'w env \<Rightarrow> converter \<Rightarrow> 'w \<Rightarrow> bool" where
  "writer_reports_success E st w =
     (case DetermineType (outputFile st) of
        KMZ_Format \<Rightarrow> fst (KML_Write E (outputFile st) (airspaces st) (waypoints st) w)
      | OpenAir_Format \<Rightarrow>
          fst (OpenAir_Write E (doNotCalculateArcs st) (writeCoordinatesAsDDMMSS st)
                 (outputFile st) (airspaces st) w)
      | SeeYou_Format \<Rightarrow> fst (SeeYou_Write E (outputFile st) (waypoints st) w)
      | Polish_Format \<Rightarrow> fst (Polish_Write E (outputFile st) (airspaces st) w)
      | Garmin_Format \<Rightarrow>
          (let polishFile = replace_extension (outputFile st) ''.mp'';
               (ok1, w1) = Polish_Write E polishFile (airspaces st) w
           in ok1 \<and> fst (cGPSmapper E polishFile (outputFile st) w1))
      | Unknown_Format \<Rightarrow> False)"

section \<open>Geographic filter\<close>

definition FilterOnLatLonLimits ::
  "'w env \<Rightarrow> real \<Rightarrow> real \<Rightarrow> real \<Rightarrow> real \<Rightarrow> converter \<Rightarrow> bool \<times> converter"
where
  "FilterOnLatLonLimits E topLat bottomLat leftLon rightLon st =
     (if topLat = 90 \<and> bottomLat = - 90 \<and> leftLon = - 180 \<and> rightLon = 180 then (True, st)
      else
        let limits = (topLat, bottomLat, leftLon, rightLon) in
        if \<not> Limits_IsValid E limits then (False, st)
        else
          let st1 = (if airspaces st \<noteq> [] then
                       st\<lparr>airspaces :=
                            filter (\<lambda>(k, a). Airspace_IsWithinLimits E a limits) (airspaces st)\<rparr>
                     else st);
              st2 = (if waypoints st1 \<noteq> [] then
                       st1\<lparr>waypoints :=
                             filter (\<lambda>(k, p). Limits_IsPositionWithinLimits E limits (GetPosition p))
                               (waypoints st1)\<rparr>
                     else st1)
          in (True, st2))"

section \<open>Batch directory pipeline\<close>

text \<open>
  The value type of \<open>aipFilesIndex\<close>: the flags asp, hot, nav and wpt, in the order of the
  tuple of the source.
\<close>

type_synonym contents = "bool \<times> bool \<times> bool \<times> bool"

text \<open>The chain of \<open>boost::ends_with\<close> tests; \<open>None\<close> is the warning and \<open>continue\<close>.\<close>

definition newContent :: "string \<Rightarrow> contents option" where
  "newContent filename =
     (if ends_with filename ''asp'' then Some (True, False, False, False)
      else if ends_with filename ''wpt'' then Some (False, False, False, True)
      else if ends_with filename ''nav'' then Some (False, False, True, False)
      else if ends_with filename ''hot'' then Some (False, True, False, False)
      else None)"

text \<open>
  \<open>aipFilesIndex\<close> is a \<open>std::map\<close>: the list of its entries, sorted by key. A new country
  is inserted at its place; the flags of a known one are merged by disjunction.
\<close>

fun index_add :: "string \<Rightarrow> contents \<Rightarrow> (string \<times> contents) list \<Rightarrow> (string \<times> contents) list"
where
  "index_add cc new [] = [(cc, new)]"
| "index_add cc new ((k, old) # rest) =
     (if cc = k then
        (case (old, new) of
           ((a0, a1, a2, a3), (b0, b1, b2, b3)) \<Rightarrow>
             (k, (a0 \<or> b0, a1 \<or> b1, a2 \<or> b2, a3 \<or> b3)) # rest)
      else if cc < k then (cc, new) # (k, old) # rest
      else (k, old) # index_add cc new rest)"

text \<open>The scan of the directory, entry by entry, onto the index built so far.\<close>

fun build_index :: "dir_entry list \<Rightarrow> (string \<times> contents) list \<Rightarrow> (string \<times> contents) list"
where
  "build_index [] idx = idx"
| "build_index (e # es) idx =
     (if is_regular_file e \<and> file_size e \<noteq> 0 \<and> iequals (extension (entry_path e)) ''.aip''
      then
        (let filename = stem (entry_path e) in
         if length filename = 6 \<and> filename ! 2 = CHR ''_'' then
           (case newContent filename of
              None \<Rightarrow> build_index es idx
            | Some new \<Rightarrow> build_index es (index_add (take 2 filename) new idx))
         else build_index es idx)
      else build_index es idx)"

text \<open>
  The body of the loop over the index, block by block. The results of \<open>Convert\<close> are
  dropped, as the source drops them; an abort by \<open>assert\<close> (\<open>None\<close>) is passed on.
  First the block \<open>if (asp)\<close>.
\<close>

definition convert_asp ::
  "'w env \<Rightarrow> string \<Rightarrow> string \<Rightarrow> converter \<Rightarrow> 'w \<Rightarrow> (converter \<times> 'w) option"
where
  "convert_asp E openAIPpath countryCode st w =
     (let aspPath = path_append openAIPpath (countryCode @ ''_asp.aip'') in
      case LoadAirspaces E KMZ_Format (AddAirspaceFile aspPath st) w of
        None \<Rightarrow> None
      | Some (st1, w1) \<Rightarrow>
          (case Convert E (st1\<lparr>outputFile := replace_extension aspPath ''.txt''\<rparr>) w1 of
             None \<Rightarrow> None
           | Some (ok, st2, w2) \<Rightarrow> Some (st2, w2)))"

text \<open>The block \<open>if (wpt)\<close>; the caller keeps \<open>airfieldsFile\<close>.\<close>

definition convert_wpt ::
  "'w env \<Rightarrow> string \<Rightarrow> string \<Rightarrow> converter \<Rightarrow> 'w \<Rightarrow> (converter \<times> 'w) option"
where
  "convert_wpt E openAIPpath countryCode st w =
     (let wptPath = path_append openAIPpath (countryCode @ ''_wpt.aip'');
          (st1, w1) = LoadWaypoints E (AddWaypointFile wptPath st) w
      in case Convert E (st1\<lparr>outputFile := replace_extension wptPath ''.cup''\<rparr>) w1 of
           None \<Rightarrow> None
         | Some (ok, st2, w2) \<Rightarrow> Some (st2, w2))"

text \<open>The block \<open>if (nav)\<close>, which first unloads the airfields when there were any.\<close>

definition convert_nav ::
  "'w env \<Rightarrow> string \<Rightarrow> string \<Rightarrow> bool \<Rightarrow> converter \<Rightarrow> 'w \<Rightarrow> (converter \<times> 'w) option"
where
  "convert_nav E openAIPpath countryCode wpt st w =
     (let st0 = (if wpt then UnloadWaypoints st else st);
          navPath = path_append openAIPpath (countryCode @ ''_nav.aip'');
          (st1, w1) = LoadWaypoints E (AddWaypointFile navPath st0) w
      in case Convert E (st1\<lparr>outputFile := replace_extension navPath ''.cup''\<rparr>) w1 of
           None \<Rightarrow> None
         | Some (ok, st2, w2) \<Rightarrow> Some (st2, w2))"

text \<open>The block \<open>if (!airfieldsFile.empty())\<close>.\<close>

definition reload_airfields :: "'w env \<Rightarrow> string \<Rightarrow> converter \<Rightarrow> 'w \<Rightarrow> converter \<times> 'w" where
  "reload_airfields E airfieldsFile st w =
     (if airfieldsFile \<noteq> [] then LoadWaypoints E (AddWaypointFile airfieldsFile st) w
      else (st, w))"

text \<open>The KMZ file "with all", and the two unloads that end the iteration.\<close>

definition convert_all ::
  "'w env \<Rightarrow> string \<Rightarrow> string \<Rightarrow> converter \<Rightarrow> 'w \<Rightarrow> (converter \<times> 'w) option"
where
  "convert_all E openAIPpath countryCode st w =
     (case Convert E (st\<lparr>outputFile := path_append openAIPpath (countryCode @ ''.kmz'')\<rparr>) w of
        None \<Rightarrow> None
      | Some (ok, st1, w1) \<Rightarrow> Some (UnloadWaypoints (UnloadAirspaces st1), w1))"

text \<open>One iteration, for the entry \<open>rec\<close> of the index.\<close>

definition convert_country ::
  "'w env \<Rightarrow> string \<Rightarrow> string \<times> contents \<Rightarrow> converter \<Rightarrow> 'w \<Rightarrow> (converter \<times> 'w) option"
where
  "convert_country E openAIPpath rec st0 w0 =
     (case rec of (countryCode, (asp, hot, nav, wpt)) \<Rightarrow>
        (case (if asp then convert_asp E openAIPpath countryCode st0 w0 else Some (st0, w0)) of
           None \<Rightarrow> None
         | Some (st1, w1) \<Rightarrow>
             let airfieldsFile =
                   (if wpt then path_append openAIPpath (countryCode @ ''_wpt.aip'') else [])
             in
             (case (if wpt then convert_wpt E openAIPpath countryCode st1 w1
                    else Some (st1, w1)) of
                None \<Rightarrow> None
              | Some (st2, w2) \<Rightarrow>
                  (case (if nav then convert_nav E openAIPpath countryCode wpt st2 w2
                         else Some (st2, w2)) of
                     None \<Rightarrow> None
                   | Some (st3, w3) \<Rightarrow>
                       let (st4, w4) = reload_airfields E airfieldsFile st3 w3
                       in convert_all E openAIPpath countryCode st4 w4))))"

fun convert_countries ::
  "'w env \<Rightarrow> string \<Rightarrow> (string \<times> contents) list \<Rightarrow> converter \<Rightarrow> 'w \<Rightarrow> (converter \<times> 'w) option"
where
  "convert_countries E openAIPpath [] st w = Some (st, w)"
| "convert_countries E openAIPpath (rec # rest) st w =
     (case convert_country E openAIPpath rec st w of
        None \<Rightarrow> None
      | Some (st', w') \<Rightarrow> convert_countries E openAIPpath rest st' w')"

definition ConvertOpenAIPdir ::
  "'w env \<Rightarrow> string \<Rightarrow> converter \<Rightarrow> 'w \<Rightarrow> (bool \<times> converter \<times> 'w) option"
where
  "ConvertOpenAIPdir E openAIPdir st w =
     (if openAIPdir = [] then Some (False, st, w)
      else if \<not> is_directory E openAIPdir w then Some (False, st, w)
      else
        let st1 = UnloadWaypoints (UnloadAirspaces st);
            aipFilesIndex = build_index (directory_entries E openAIPdir w) []
        in if aipFilesIndex = [] then Some (False, st1, w)
           else (case convert_countries E openAIPdir aipFilesIndex st1 w of
                   None \<Rightarrow> None
                 | Some (st2, w2) \<Rightarrow> Some (True, st2, w2)))"

section \<open>Auxiliary notions for the statements\<close>

text \<open>The last element of a path as written: what follows its last separator.\<close>

definition after_sep :: "string \<Rightarrow> string" where
  "after_sep p = rev (takeWhile (\<lambda>c. c \<noteq> CHR ''/'') (rev p))"


text \<open>
  A small world to run the converter in. The world is the list of the files written so
  far, each with the collections its writer was given. Every reader succeeds and adds one
  entry to its collection; every writer succeeds. The only directory is \<open>aip\<close>, and it
  holds the single file \<open>aa_wpt.aip\<close>. A box is valid when its bottom is below its top and
  its left is left of its right.
\<close>

type_synonym written = "(string \<times> airspaces \<times> waypoints) list"

definition an_airspace :: Airspace where
  "an_airspace = \<lparr>airspaceName = ''CTR'', topAltitude = FlightLevel 100, baseAltitude = AltFt 0 False\<rparr>"

definition an_airfield :: WaypointPtr where
  "an_airfield =
     IsAirfield \<lparr>longName = ''Aosta'', shortName = ''LIMW'', country = ''IT'', latitude = 45,
       longitude = 7, altitude = 547, style = 5, description = [], runwayDir = 90,
       runwayLength = 1499, radioFreq = ''119.950''\<rparr>"

definition test_env :: "written env" where
  "test_env =
     \<lparr>NDEBUG = False,
      OpenAir_Read = (\<lambda>f a w. (True, a @ [(1, an_airspace)], w)),
      OpenAIP_ReadAirspaces = (\<lambda>f a p w. (True, a @ [(1, an_airspace)], p, w)),
      KML_ReadKMZ = (\<lambda>ls f a p w. (True, a @ [(1, an_airspace)], p, w)),
      KML_ReadKML = (\<lambda>ls f a p w. (True, a @ [(1, an_airspace)], p, w)),
      SeeYou_Read = (\<lambda>f p w. (True, p @ [(5, an_airfield)], w)),
      OpenAIP_ReadWaypoints = (\<lambda>f a p w. (True, a, p @ [(5, an_airfield)], w)),
      KML_Write = (\<lambda>f a p w. (True, w @ [(f, a, p)])),
      OpenAir_Write = (\<lambda>arcs dms f a w. (True, w @ [(f, a, [])])),
      SeeYou_Write = (\<lambda>f p w. (True, w @ [(f, [], p)])),
      Polish_Write = (\<lambda>f a w. (True, w @ [(f, a, [])])),
      cGPSmapper = (\<lambda>mp f w. (True, w @ [(f, [], [])])),
      KML_AddTerrainMap = (\<lambda>f w. (True, w)),
      KML_ClearTerrainMaps = (\<lambda>w. w),
      is_directory = (\<lambda>d w. d = ''aip''),
      directory_entries =
        (\<lambda>d w. if d = ''aip''
               then [\<lparr>entry_path = ''aip/aa_wpt.aip'', is_regular_file = True, file_size = 512\<rparr>]
               else []),
      Limits_IsValid = (\<lambda>(t, b, l, r). b < t \<and> l < r),
      Airspace_IsWithinLimits = (\<lambda>a limits. True),
      Limits_IsPositionWithinLimits = (\<lambda>(t, b, l, r) (la, lo). b \<le> la \<and> la \<le> t \<and> l \<le> lo \<and> lo \<le> r)\<rparr>"


text \<open>
  The shape of the extensions the converter writes: a dot, then at least one character,
  none of them a dot, a separator or NUL.
\<close>

definition is_dot_ext :: "string \<Rightarrow> bool" where
  "is_dot_ext e =
     (case e of
        [] \<Rightarrow> False
      | c # r \<Rightarrow> c = CHR ''.'' \<and> r \<noteq> [] \<and> CHR ''.'' \<notin> set r \<and> CHR ''/'' \<notin> set r \<and> nul_free r)"

section \<open>Facts about paths\<close>

lemma takeWhile_stop: "list_all P a \<Longrightarrow> \<not> P c \<Longrightarrow> takeWhile P (a @ c # b) = a"
  by (induction a) auto

lemma rfind_last:
  assumes "c \<notin> set r"
  shows "rfind c (p @ c # r) = Some (length p)"
proof -
  have "list_all (\<lambda>x. x \<noteq> c) (rev r)"
    using assms by (auto simp: list_all_iff)
  then have "takeWhile (\<lambda>x. x \<noteq> c) (rev (p @ c # r)) = rev r"
    by (simp add: takeWhile_stop)
  then show ?thesis by (simp add: rfind_def)
qed

lemma rfind_None: "c \<notin> set s \<Longrightarrow> rfind c s = None"
  by (simp add: rfind_def)

lemma rfind_Some_less: "rfind c s = Some k \<Longrightarrow> k < length s"
proof -
  assume a: "rfind c s = Some k"
  then have "c \<in> set s" by (simp add: rfind_def split: if_splits)
  then have "0 < length s" by (rule length_pos_if_in_set)
  with a show ?thesis by (auto simp: rfind_def split: if_splits)
qed

lemma c_str_nul_free: "nul_free s \<Longrightarrow> c_str s = s"
  unfolding c_str_def nul_free_def by (induction s) auto

lemma nul_free_append [simp]: "nul_free (a @ b) \<longleftrightarrow> nul_free a \<and> nul_free b"
  by (simp add: nul_free_def)

lemma nul_free_drop: "nul_free s \<Longrightarrow> nul_free (drop n s)"
  by (auto simp: nul_free_def dest: in_set_dropD)

lemma nul_free_take: "nul_free s \<Longrightarrow> nul_free (take n s)"
  by (auto simp: nul_free_def dest: in_set_takeD)

lemma nul_free_Cons [simp]: "nul_free (c # s) \<longleftrightarrow> c \<noteq> NUL \<and> nul_free s"
  by (auto simp: nul_free_def)

lemma nul_free_Nil [simp]: "nul_free []"
  by (simp add: nul_free_def)

lemma NUL_literals [simp]:
  "CHR ''.'' \<noteq> NUL" "CHR ''/'' \<noteq> NUL" "CHR ''_'' \<noteq> NUL"
  "CHR ''a'' \<noteq> NUL" "CHR ''c'' \<noteq> NUL" "CHR ''g'' \<noteq> NUL" "CHR ''i'' \<noteq> NUL"
  "CHR ''k'' \<noteq> NUL" "CHR ''m'' \<noteq> NUL" "CHR ''p'' \<noteq> NUL" "CHR ''s'' \<noteq> NUL"
  "CHR ''t'' \<noteq> NUL" "CHR ''u'' \<noteq> NUL" "CHR ''x'' \<noteq> NUL" "CHR ''z'' \<noteq> NUL"
  by (simp_all add: NUL_def)

lemma is_dot_ext_nul_free: "is_dot_ext e \<Longrightarrow> nul_free e"
  by (auto simp: is_dot_ext_def split: list.splits)

lemma is_dot_ext_no_sep: "is_dot_ext e \<Longrightarrow> CHR ''/'' \<notin> set e"
  by (auto simp: is_dot_ext_def split: list.splits)

lemma is_dot_ext_last:
  assumes "is_dot_ext e"
  shows "e \<noteq> [] \<and> last e \<noteq> CHR ''/'' \<and> last e \<noteq> CHR ''.''"
proof -
  from assms obtain r where r: "e = CHR ''.'' # r" "r \<noteq> []"
      "CHR ''.'' \<notin> set r" "CHR ''/'' \<notin> set r"
    by (auto simp: is_dot_ext_def split: list.splits)
  have "last e = last r" using r by simp
  moreover have "last r \<noteq> CHR ''/''" using r(2,4) last_in_set by metis
  moreover have "last r \<noteq> CHR ''.''" using r(2,3) last_in_set by metis
  ultimately show ?thesis using r(1) by simp
qed

lemma path_filename_suffix:
  assumes nf: "nul_free p" and e: "is_dot_ext e"
  shows "\<exists>q. path_filename (p @ e) = q @ e"
proof -
  let ?s = "p @ e"
  from e have ne: "e \<noteq> []" and le: "last e \<noteq> CHR ''/''" and ns: "CHR ''/'' \<notin> set e"
    using is_dot_ext_last is_dot_ext_no_sep by auto
  have nfs: "nul_free ?s" using nf e by (simp add: is_dot_ext_nul_free)
  have last_s: "last ?s = last e" using ne by simp
  have not_dd: "?s \<noteq> ''//''"
  proof
    assume "?s = ''//''"
    then have "last ?s = CHR ''/''" by simp
    with last_s le show False by simp
  qed
  show ?thesis
  proof (cases "CHR ''/'' \<in> set p")
    case False
    then have "rfind CHR ''/'' ?s = None" using ns by (simp add: rfind_None)
    then have "filename_pos ?s = 0"
      using not_dd last_s le by (simp add: filename_pos_def is_separator_def)
    then have "path_filename ?s = ?s"
      using nfs by (simp add: path_filename_def c_str_nul_free)
    then show ?thesis by blast
  next
    case True
    then obtain a b where p: "p = a @ CHR ''/'' # b" and nb: "CHR ''/'' \<notin> set b"
      using split_list_last by fastforce
    have s: "?s = a @ CHR ''/'' # (b @ e)" using p by simp
    have "CHR ''/'' \<notin> set (b @ e)" using nb ns by simp
    then have rf: "rfind CHR ''/'' ?s = Some (length a)"
      unfolding s by (rule rfind_last)
    have pos: "filename_pos ?s = 0 \<or> filename_pos ?s = length a + 1"
      using rf not_dd last_s le by (simp add: filename_pos_def is_separator_def)
    then show ?thesis
    proof
      assume "filename_pos ?s = 0"
      then have "path_filename ?s = ?s"
        using nfs by (simp add: path_filename_def c_str_nul_free)
      then show ?thesis by blast
    next
      assume fp: "filename_pos ?s = length a + 1"
      have dr: "drop (length a + 1) ?s = b @ e" unfolding s by simp
      have "?s ! (length a + 1) = (b @ e) ! 0"
        unfolding s by (simp add: nth_append)
      moreover have "(b @ e) ! 0 \<in> set (b @ e)" using ne by (intro nth_mem) simp
      ultimately have "\<not> is_separator (?s ! (length a + 1))"
        using nb ns by (auto simp: is_separator_def)
      then have "path_filename ?s = c_str (b @ e)"
        using fp dr by (simp add: path_filename_def)
      moreover have "nul_free (b @ e)" using nfs unfolding s by simp
      ultimately have "path_filename ?s = b @ e" by (simp add: c_str_nul_free)
      then show ?thesis by blast
    qed
  qed
qed

lemma extension_append:
  assumes nf: "nul_free p" and e: "is_dot_ext e"
  shows "extension (p @ e) = e"
proof -
  obtain q where q: "path_filename (p @ e) = q @ e"
    using path_filename_suffix [OF nf e] by blast
  from e obtain r where r: "e = CHR ''.'' # r" "r \<noteq> []" "CHR ''.'' \<notin> set r"
    by (auto simp: is_dot_ext_def split: list.splits)
  have l: "last (q @ e) \<noteq> CHR ''.''" using e is_dot_ext_last by simp
  have n1: "q @ e \<noteq> ''.''" using l by auto
  have n2: "q @ e \<noteq> ''..''" using l by auto
  have rf: "rfind CHR ''.'' (q @ e) = Some (length q)"
    unfolding r(1) using r(3) by (rule rfind_last)
  have "c_str (drop (length q) (q @ e)) = e"
    using e by (simp add: c_str_nul_free is_dot_ext_nul_free)
  then show ?thesis
    using q n1 n2 rf by (simp add: extension_def)
qed

lemma replace_extension_eq:
  "is_dot_ext e \<Longrightarrow> replace_extension p e = take (length p - length (extension p)) p @ e"
  by (auto simp: replace_extension_def is_dot_ext_def Let_def split: list.splits)

lemma extension_replace_extension:
  assumes nf: "nul_free p" and e: "is_dot_ext e"
  shows "extension (replace_extension p e) = e"
  using assms by (simp add: replace_extension_eq extension_append nul_free_take)

lemma replace_extension_nonempty: "is_dot_ext e \<Longrightarrow> replace_extension p e \<noteq> []"
  by (auto simp: replace_extension_eq is_dot_ext_def split: list.splits)

lemma dot_ext_literals:
  "is_dot_ext ''.kmz''" "is_dot_ext ''.txt''" "is_dot_ext ''.cup''" "is_dot_ext ''.mp''" "is_dot_ext ''.img''"
  by (simp_all add: is_dot_ext_def)

lemma to_upper_dot: "to_upper c = CHR ''.'' \<longleftrightarrow> c = CHR ''.''"
  by (simp add: to_upper_def)

lemma to_upper_sep: "to_upper c = CHR ''/'' \<longleftrightarrow> c = CHR ''/''"
  by (simp add: to_upper_def)

lemma to_upper_nul: "to_upper c = NUL \<longleftrightarrow> c = NUL"
  by (simp add: to_upper_def NUL_def)

lemma notin_map_to_upper:
  assumes "to_upper x = x" and "x \<notin> set (map to_upper r)"
  shows "x \<notin> set r"
proof
  assume "x \<in> set r"
  then have "to_upper x \<in> set (map to_upper r)" by simp
  with assms show False by simp
qed

lemma is_dot_ext_upper:
  assumes m: "map to_upper e = u" and u: "is_dot_ext u"
  shows "is_dot_ext e"
proof (cases e)
  case Nil
  with m u show ?thesis by (simp add: is_dot_ext_def)
next
  case (Cons c r)
  with m have u': "u = to_upper c # map to_upper r" by simp
  from u have d: "to_upper c = CHR ''.''" "map to_upper r \<noteq> []"
      "CHR ''.'' \<notin> set (map to_upper r)" "CHR ''/'' \<notin> set (map to_upper r)"
      "NUL \<notin> set (map to_upper r)"
    unfolding u' is_dot_ext_def nul_free_def by auto
  have "c = CHR ''.''" using d(1) by (simp add: to_upper_dot)
  moreover have "r \<noteq> []" using d(2) by simp
  moreover have "CHR ''.'' \<notin> set r"
    using d(3) by (rule notin_map_to_upper [rotated]) (simp add: to_upper_def NUL_def)
  moreover have "CHR ''/'' \<notin> set r"
    using d(4) by (rule notin_map_to_upper [rotated]) (simp add: to_upper_def NUL_def)
  moreover have "NUL \<notin> set r"
    using d(5) by (rule notin_map_to_upper [rotated]) (simp add: to_upper_def NUL_def)
  ultimately show ?thesis
    unfolding Cons is_dot_ext_def nul_free_def by auto
qed

lemma iequals_is_dot_ext:
  "iequals e ''.kmz'' \<Longrightarrow> is_dot_ext e"
  "iequals e ''.txt'' \<Longrightarrow> is_dot_ext e"
  "iequals e ''.cup'' \<Longrightarrow> is_dot_ext e"
  "iequals e ''.mp'' \<Longrightarrow> is_dot_ext e"
  "iequals e ''.img'' \<Longrightarrow> is_dot_ext e"
  unfolding iequals_def
  by (erule is_dot_ext_upper, simp add: is_dot_ext_def to_upper_def NUL_def)+

lemma DetermineType_append:
  assumes "nul_free p" "is_dot_ext e"
  shows "DetermineType (p @ e) =
     (if iequals e ''.kmz'' then KMZ_Format
      else if iequals e ''.txt'' then OpenAir_Format
      else if iequals e ''.cup'' then SeeYou_Format
      else if iequals e ''.mp'' then Polish_Format
      else if iequals e ''.img'' then Garmin_Format
      else Unknown_Format)"
proof -
  have "e \<noteq> []" using assms(2) by (auto simp: is_dot_ext_def)
  then show ?thesis
    using assms by (simp add: DetermineType_def extension_append)
qed

lemma iequals_both: "iequals e a \<Longrightarrow> iequals e b \<Longrightarrow> map to_upper a = map to_upper b"
  by (simp add: iequals_def)

lemma lits_distinct:
  "map to_upper ''.txt'' \<noteq> map to_upper ''.kmz''"
  "map to_upper ''.cup'' \<noteq> map to_upper ''.kmz''"
  "map to_upper ''.cup'' \<noteq> map to_upper ''.txt''"
  "map to_upper ''.mp'' \<noteq> map to_upper ''.kmz''"
  "map to_upper ''.mp'' \<noteq> map to_upper ''.txt''"
  "map to_upper ''.mp'' \<noteq> map to_upper ''.cup''"
  "map to_upper ''.img'' \<noteq> map to_upper ''.kmz''"
  "map to_upper ''.img'' \<noteq> map to_upper ''.txt''"
  "map to_upper ''.img'' \<noteq> map to_upper ''.cup''"
  "map to_upper ''.img'' \<noteq> map to_upper ''.mp''"
  by (simp_all add: to_upper_def NUL_def)

lemma iequals_distinct:
  "iequals e ''.txt'' \<Longrightarrow> \<not> iequals e ''.kmz''"
  "iequals e ''.cup'' \<Longrightarrow> \<not> iequals e ''.kmz'' \<and> \<not> iequals e ''.txt''"
  "iequals e ''.mp'' \<Longrightarrow> \<not> iequals e ''.kmz'' \<and> \<not> iequals e ''.txt'' \<and> \<not> iequals e ''.cup''"
  "iequals e ''.img'' \<Longrightarrow> \<not> iequals e ''.kmz'' \<and> \<not> iequals e ''.txt'' \<and> \<not> iequals e ''.cup'' \<and> \<not> iequals e ''.mp''"
  using iequals_both [of e] lits_distinct by blast+

lemma set_c_str: "set (c_str s) \<subseteq> set s"
  by (auto simp: c_str_def dest: set_takeWhileD)

lemma path_filename_chars: "x \<in> set (path_filename p) \<Longrightarrow> x \<in> set p \<or> path_filename p = ''.''"
  using set_c_str by (auto simp: path_filename_def Let_def split: if_splits dest: in_set_dropD)

lemma extension_no_dot:
  assumes "CHR ''.'' \<notin> set p"
  shows "extension p = []"
proof (cases "path_filename p = ''.''")
  case True
  then show ?thesis by (simp add: extension_def)
next
  case False
  then have "CHR ''.'' \<notin> set (path_filename p)"
    using assms path_filename_chars by blast
  then have "rfind CHR ''.'' (path_filename p) = None" by (rule rfind_None)
  then show ?thesis by (simp add: extension_def Let_def)
qed

lemma DetermineType_Unknown:
  assumes "f \<noteq> []" "\<not> iequals (extension f) ''.kmz''" "\<not> iequals (extension f) ''.txt''"
    "\<not> iequals (extension f) ''.cup''" "\<not> iequals (extension f) ''.mp''"
    "\<not> iequals (extension f) ''.img''"
  shows "DetermineType f = Unknown_Format"
  using assms by (simp add: DetermineType_def)

lemma DetermineType_no_dot:
  assumes "f \<noteq> []" "CHR ''.'' \<notin> set f"
  shows "DetermineType f = Unknown_Format"
  using assms by (simp add: DetermineType_def extension_no_dot iequals_def)

section \<open>Type resolver: the claims\<close>

text \<open>
  C3, as stated, fails: a path that is not empty and has no extension at all does not
  resolve to KMZ. \<open>DetermineType\<close> returns \<open>Unknown_Format\<close> for \<open>foo\<close>, whose
  extension is empty.
\<close>

theorem DetermineType_counterexample:
  "''foo'' \<noteq> [] \<and> extension ''foo'' = [] \<and> DetermineType ''foo'' = Unknown_Format"
  by (simp add: DetermineType_no_dot extension_no_dot)

text \<open>
  C3, amended: the empty path resolves to KMZ; a path ending in \<open>.kmz\<close>, \<open>.txt\<close>,
  \<open>.cup\<close>, \<open>.mp\<close> or \<open>.img\<close>, in any mix of upper and lower case, resolves to KMZ,
  OpenAir, SeeYou (tabular), Polish (vendor map source) and Garmin (vendor map compiled);
  every other path that is not empty resolves to \<open>Unknown_Format\<close>, among them the
  paths with no dot at all.
\<close>

theorem DetermineType_cases:
  "DetermineType [] = KMZ_Format \<and>
   (\<forall>p e. nul_free p \<and> iequals e ''.kmz'' \<longrightarrow> DetermineType (p @ e) = KMZ_Format) \<and>
   (\<forall>p e. nul_free p \<and> iequals e ''.txt'' \<longrightarrow> DetermineType (p @ e) = OpenAir_Format) \<and>
   (\<forall>p e. nul_free p \<and> iequals e ''.cup'' \<longrightarrow> DetermineType (p @ e) = SeeYou_Format) \<and>
   (\<forall>p e. nul_free p \<and> iequals e ''.mp'' \<longrightarrow> DetermineType (p @ e) = Polish_Format) \<and>
   (\<forall>p e. nul_free p \<and> iequals e ''.img'' \<longrightarrow> DetermineType (p @ e) = Garmin_Format) \<and>
   (\<forall>f. f \<noteq> [] \<and> CHR ''.'' \<notin> set f \<longrightarrow> DetermineType f = Unknown_Format) \<and>
   (\<forall>f. f \<noteq> [] \<and> \<not> iequals (extension f) ''.kmz'' \<and> \<not> iequals (extension f) ''.txt'' \<and>
        \<not> iequals (extension f) ''.cup'' \<and> \<not> iequals (extension f) ''.mp'' \<and>
        \<not> iequals (extension f) ''.img'' \<longrightarrow> DetermineType f = Unknown_Format)"
proof (intro conjI allI impI)
  show "DetermineType [] = KMZ_Format" by (simp add: DetermineType_def)
next
  fix p e assume "nul_free p \<and> iequals e ''.kmz''"
  then show "DetermineType (p @ e) = KMZ_Format"
    by (simp add: DetermineType_append iequals_is_dot_ext)
next
  fix p e assume "nul_free p \<and> iequals e ''.txt''"
  then show "DetermineType (p @ e) = OpenAir_Format"
    by (simp add: DetermineType_append iequals_is_dot_ext iequals_distinct)
next
  fix p e assume "nul_free p \<and> iequals e ''.cup''"
  then show "DetermineType (p @ e) = SeeYou_Format"
    by (simp add: DetermineType_append iequals_is_dot_ext iequals_distinct)
next
  fix p e assume "nul_free p \<and> iequals e ''.mp''"
  then show "DetermineType (p @ e) = Polish_Format"
    by (simp add: DetermineType_append iequals_is_dot_ext iequals_distinct)
next
  fix p e assume "nul_free p \<and> iequals e ''.img''"
  then show "DetermineType (p @ e) = Garmin_Format"
    by (simp add: DetermineType_append iequals_is_dot_ext iequals_distinct)
next
  fix f assume "f \<noteq> [] \<and> CHR ''.'' \<notin> set f"
  then show "DetermineType f = Unknown_Format" by (simp add: DetermineType_no_dot)
next
  fix f assume "f \<noteq> [] \<and> \<not> iequals (extension f) ''.kmz'' \<and> \<not> iequals (extension f) ''.txt'' \<and>
        \<not> iequals (extension f) ''.cup'' \<and> \<not> iequals (extension f) ''.mp'' \<and>
        \<not> iequals (extension f) ''.img''"
  then show "DetermineType f = Unknown_Format" by (simp add: DetermineType_Unknown)
qed

text \<open>The amended C3 at concrete paths.\<close>

theorem DetermineType_cases_witness:
  "DetermineType (''out/Alps'' @ ''.TxT'') = OpenAir_Format \<and>
   DetermineType (''a.b/c'' @ ''.KMZ'') = KMZ_Format \<and>
   DetermineType (''x'' @ ''.Cup'') = SeeYou_Format \<and>
   DetermineType (''x'' @ ''.mP'') = Polish_Format \<and>
   DetermineType (''x'' @ ''.IMG'') = Garmin_Format \<and>
   DetermineType ''out/Alps'' = Unknown_Format \<and>
   DetermineType ''Alps.xml'' = Unknown_Format"
proof -
  note r1 = DetermineType_cases [THEN conjunct2]
  note r2 = r1 [THEN conjunct2]
  note r3 = r2 [THEN conjunct2]
  note r4 = r3 [THEN conjunct2]
  note r5 = r4 [THEN conjunct2]
  note r6 = r5 [THEN conjunct2]
  note r7 = r6 [THEN conjunct2]
  have e: "extension ''Alps.xml'' = ''.xml''"
    using extension_append [of "''Alps''" "''.xml''"] by (simp add: is_dot_ext_def NUL_def)
  have "DetermineType (''out/Alps'' @ ''.TxT'') = OpenAir_Format"
    by (rule r2 [THEN conjunct1, rule_format]) (simp add: iequals_def to_upper_def NUL_def)
  moreover have "DetermineType (''a.b/c'' @ ''.KMZ'') = KMZ_Format"
    by (rule r1 [THEN conjunct1, rule_format]) (simp add: iequals_def to_upper_def NUL_def)
  moreover have "DetermineType (''x'' @ ''.Cup'') = SeeYou_Format"
    by (rule r3 [THEN conjunct1, rule_format]) (simp add: iequals_def to_upper_def NUL_def)
  moreover have "DetermineType (''x'' @ ''.mP'') = Polish_Format"
    by (rule r4 [THEN conjunct1, rule_format]) (simp add: iequals_def to_upper_def NUL_def)
  moreover have "DetermineType (''x'' @ ''.IMG'') = Garmin_Format"
    by (rule r5 [THEN conjunct1, rule_format]) (simp add: iequals_def to_upper_def NUL_def)
  moreover have "DetermineType ''out/Alps'' = Unknown_Format"
    by (rule r6 [THEN conjunct1, rule_format]) simp
  moreover have "DetermineType ''Alps.xml'' = Unknown_Format"
    by (rule r7 [rule_format]) (simp add: e iequals_def to_upper_def)
  ultimately show ?thesis by blast
qed

text \<open>
  C4: \<open>PutTypeExtension\<close> fails exactly for the empty path and for \<open>Unknown_Format\<close>,
  and then leaves the path as it was; for every other type and every path that is not empty
  (and holds no NUL character, as no file name does) it succeeds and \<open>DetermineType\<close> of
  the rewritten path is the type again.
\<close>

theorem PutTypeExtension_roundtrip:
  "(fst (PutTypeExtension t f) \<longleftrightarrow> f \<noteq> [] \<and> t \<noteq> Unknown_Format) \<and>
   (f = [] \<or> t = Unknown_Format \<longrightarrow> PutTypeExtension t f = (False, f)) \<and>
   (f \<noteq> [] \<and> nul_free f \<and> t \<noteq> Unknown_Format \<longrightarrow>
      DetermineType (snd (PutTypeExtension t f)) = t)"
proof (intro conjI impI)
  show "fst (PutTypeExtension t f) \<longleftrightarrow> f \<noteq> [] \<and> t \<noteq> Unknown_Format"
    by (cases t) (simp_all add: PutTypeExtension_def)
next
  assume "f = [] \<or> t = Unknown_Format"
  then show "PutTypeExtension t f = (False, f)"
    by (auto simp: PutTypeExtension_def)
next
  assume a: "f \<noteq> [] \<and> nul_free f \<and> t \<noteq> Unknown_Format"
  have r: "\<And>e. is_dot_ext e \<Longrightarrow> DetermineType (replace_extension f e) =
     (if iequals e ''.kmz'' then KMZ_Format
      else if iequals e ''.txt'' then OpenAir_Format
      else if iequals e ''.cup'' then SeeYou_Format
      else if iequals e ''.mp'' then Polish_Format
      else if iequals e ''.img'' then Garmin_Format
      else Unknown_Format)"
    using a by (simp add: replace_extension_eq DetermineType_append nul_free_take)
  show "DetermineType (snd (PutTypeExtension t f)) = t"
    using a by (cases t) (simp_all add: PutTypeExtension_def r dot_ext_literals iequals_def to_upper_def)
qed

text \<open>C4 at concrete inputs.\<close>

theorem PutTypeExtension_roundtrip_witness:
  "PutTypeExtension SeeYou_Format ''data/alps.aip'' = (True, ''data/alps.cup'') \<and>
   DetermineType ''data/alps.cup'' = SeeYou_Format \<and>
   PutTypeExtension Unknown_Format ''data/alps.aip'' = (False, ''data/alps.aip'') \<and>
   PutTypeExtension KMZ_Format [] = (False, [])"
proof -
  have e: "extension (''data/alps'' @ ''.aip'') = ''.aip''"
    by (rule extension_append) (simp_all add: is_dot_ext_def NUL_def)
  have p: "PutTypeExtension SeeYou_Format ''data/alps.aip'' = (True, ''data/alps.cup'')"
    using e by (simp add: PutTypeExtension_def replace_extension_def)
  show ?thesis
    using PutTypeExtension_roundtrip [of SeeYou_Format "''data/alps.aip''"]
      PutTypeExtension_roundtrip [of Unknown_Format "''data/alps.aip''"]
      PutTypeExtension_roundtrip [of KMZ_Format "[]"] p
    by (simp add: NUL_def)
qed

section \<open>Altitude parser: the claims\<close>

lemmas parse_simps = ParseAltitude_def scan_def isDigit_def number_token_def word_token_def
  iequals_def to_upper_def make_altitude_def stod_def to_double_def decimal_def digit_value_def
  to_int_def

text \<open>The failures the spec lists; \<open>100 20\<close> fails as \<open>100 200 FT\<close> does.\<close>

lemma ParseAltitude_rejects:
  "ParseAltitude [] isTop airspace = Some (False, airspace)"
  "ParseAltitude ''abc'' isTop airspace = Some (False, airspace)"
  "ParseAltitude ''100 200 FT'' isTop airspace = Some (False, airspace)"
  "ParseAltitude ''100 20'' isTop airspace = Some (False, airspace)"
  by (simp_all add: parse_simps)

text \<open>A numeric run that \<open>std::stod\<close> rejects ends the parse with a failure.\<close>

lemma number_token_conversion_fails: "stod str = None \<Longrightarrow> number_token st str = None"
  by (simp add: number_token_def)

text \<open>
  C5: the scan never looks at a last run of one character. In \<open>100 2\<close> the second numeric
  run is that run: the parse succeeds and assigns 100 feet AMSL, where the claim asks for a
  failure.
\<close>

theorem ParseAltitude_second_run_accepted:
  "ParseAltitude ''100 2'' isTop airspace =
     Some (True, SetAltitude isTop (AltFt 100 True) airspace)"
  by (simp add: parse_simps)

text \<open>What \<open>SetAltitude\<close> stores, field by field.\<close>

lemma SetAltitude_fields:
  "topAltitude (SetAltitude True a airspace) = a"
  "baseAltitude (SetAltitude True a airspace) = baseAltitude airspace"
  "baseAltitude (SetAltitude False a airspace) = a"
  "topAltitude (SetAltitude False a airspace) = topAltitude airspace"
  "airspaceName (SetAltitude isTop a airspace) = airspaceName airspace"
  by (simp_all add: SetAltitude_def)

text \<open>
  C6: the parses the spec lists, each with the airspace it leaves: the altitude is stored
  as the top altitude when \<open>isTop\<close> holds and as the base altitude otherwise, and nothing
  else changes. \<open>FL100\<close> is flight level 100, the reference left at AMSL; \<open>2000ft AGL\<close>
  is 2000 feet AGL; \<open>GND\<close> and \<open>SFC\<close> alone resolve value, type and unit at once and
  give 0 feet AGL; \<open>UNLIM\<close>, \<open>UNLIMITED\<close> and \<open>UNL\<close> give the unlimited altitude;
  \<open>3500 AMSL\<close> gives 3500 feet AMSL with the unit unresolved, so feet by default;
  \<open>3500 ft\<close> gives 3500 feet AMSL with the reference unresolved, so AMSL by default;
  \<open>3500\<close> has neither and gives 3500 feet AMSL. The flags listed for each scan are
  \<open>valueFound\<close>, \<open>typeFound\<close>, \<open>unitFound\<close>, \<open>isInFeet\<close> and \<open>isAMSL\<close>.
\<close>

theorem ParseAltitude_examples:
  "ParseAltitude ''FL100'' True airspace =
     Some (True, airspace\<lparr>topAltitude := FlightLevel 100\<rparr>) \<and>
   ParseAltitude ''FL100'' False airspace =
     Some (True, airspace\<lparr>baseAltitude := FlightLevel 100\<rparr>) \<and>
   ParseAltitude ''2000ft AGL'' True airspace =
     Some (True, airspace\<lparr>topAltitude := AltFt 2000 False\<rparr>) \<and>
   ParseAltitude ''2000ft AGL'' False airspace =
     Some (True, airspace\<lparr>baseAltitude := AltFt 2000 False\<rparr>) \<and>
   ParseAltitude ''GND'' True airspace =
     Some (True, airspace\<lparr>topAltitude := AltFt 0 False\<rparr>) \<and>
   ParseAltitude ''GND'' False airspace =
     Some (True, airspace\<lparr>baseAltitude := AltFt 0 False\<rparr>) \<and>
   ParseAltitude ''SFC'' True airspace =
     Some (True, airspace\<lparr>topAltitude := AltFt 0 False\<rparr>) \<and>
   ParseAltitude ''SFC'' False airspace =
     Some (True, airspace\<lparr>baseAltitude := AltFt 0 False\<rparr>) \<and>
   ParseAltitude ''UNLIM'' True airspace =
     Some (True, airspace\<lparr>topAltitude := Unlimited\<rparr>) \<and>
   ParseAltitude ''UNLIM'' False airspace =
     Some (True, airspace\<lparr>baseAltitude := Unlimited\<rparr>) \<and>
   ParseAltitude ''UNLIMITED'' True airspace =
     Some (True, airspace\<lparr>topAltitude := Unlimited\<rparr>) \<and>
   ParseAltitude ''UNLIMITED'' False airspace =
     Some (True, airspace\<lparr>baseAltitude := Unlimited\<rparr>) \<and>
   ParseAltitude ''UNL'' True airspace =
     Some (True, airspace\<lparr>topAltitude := Unlimited\<rparr>) \<and>
   ParseAltitude ''UNL'' False airspace =
     Some (True, airspace\<lparr>baseAltitude := Unlimited\<rparr>) \<and>
   ParseAltitude ''3500 AMSL'' True airspace =
     Some (True, airspace\<lparr>topAltitude := AltFt 3500 True\<rparr>) \<and>
   ParseAltitude ''3500 AMSL'' False airspace =
     Some (True, airspace\<lparr>baseAltitude := AltFt 3500 True\<rparr>) \<and>
   ParseAltitude ''3500 ft'' True airspace =
     Some (True, airspace\<lparr>topAltitude := AltFt 3500 True\<rparr>) \<and>
   ParseAltitude ''3500 ft'' False airspace =
     Some (True, airspace\<lparr>baseAltitude := AltFt 3500 True\<rparr>) \<and>
   ParseAltitude ''3500'' True airspace =
     Some (True, airspace\<lparr>topAltitude := AltFt 3500 True\<rparr>) \<and>
   ParseAltitude ''3500'' False airspace =
     Some (True, airspace\<lparr>baseAltitude := AltFt 3500 True\<rparr>) \<and>
   map_option (\<lambda>st. (valueFound st, typeFound st, unitFound st, isInFeet st, isAMSL st))
     (scan ''FL100'') = Some (True, True, False, True, True) \<and>
   map_option (\<lambda>st. (valueFound st, typeFound st, unitFound st, isInFeet st, isAMSL st))
     (scan ''2000ft AGL'') = Some (True, True, True, True, False) \<and>
   map_option (\<lambda>st. (valueFound st, typeFound st, unitFound st, isInFeet st, isAMSL st))
     (scan ''GND'') = Some (True, True, True, True, False) \<and>
   map_option (\<lambda>st. (valueFound st, typeFound st, unitFound st, isInFeet st, isAMSL st))
     (scan ''SFC'') = Some (True, True, True, True, False) \<and>
   map_option (\<lambda>st. (valueFound st, typeFound st, unitFound st, isInFeet st, isAMSL st))
     (scan ''3500 AMSL'') = Some (True, True, False, True, True) \<and>
   map_option (\<lambda>st. (valueFound st, typeFound st, unitFound st, isInFeet st, isAMSL st))
     (scan ''3500 ft'') = Some (True, False, True, True, True) \<and>
   map_option (\<lambda>st. (valueFound st, typeFound st, unitFound st, isInFeet st, isAMSL st))
     (scan ''3500'') = Some (True, False, False, True, True) \<and>
   map_option val (scan ''GND'') = Some 0 \<and>
   map_option val (scan ''SFC'') = Some 0 \<and>
   map_option isFL (scan ''FL100'') = Some True"
proof -
  have c1: "ParseAltitude ''FL100'' True airspace =
      Some (True, airspace\<lparr>topAltitude := FlightLevel 100\<rparr>)"
    by (simp add: parse_simps SetAltitude_def)
  have c2: "ParseAltitude ''FL100'' False airspace =
      Some (True, airspace\<lparr>baseAltitude := FlightLevel 100\<rparr>)"
    by (simp add: parse_simps SetAltitude_def)
  have c3: "ParseAltitude ''2000ft AGL'' True airspace =
      Some (True, airspace\<lparr>topAltitude := AltFt 2000 False\<rparr>)"
    by (simp add: parse_simps SetAltitude_def)
  have c4: "ParseAltitude ''2000ft AGL'' False airspace =
      Some (True, airspace\<lparr>baseAltitude := AltFt 2000 False\<rparr>)"
    by (simp add: parse_simps SetAltitude_def)
  have c5: "ParseAltitude ''GND'' True airspace =
      Some (True, airspace\<lparr>topAltitude := AltFt 0 False\<rparr>)"
    by (simp add: parse_simps SetAltitude_def)
  have c6: "ParseAltitude ''GND'' False airspace =
      Some (True, airspace\<lparr>baseAltitude := AltFt 0 False\<rparr>)"
    by (simp add: parse_simps SetAltitude_def)
  have c7: "ParseAltitude ''SFC'' True airspace =
      Some (True, airspace\<lparr>topAltitude := AltFt 0 False\<rparr>)"
    by (simp add: parse_simps SetAltitude_def)
  have c8: "ParseAltitude ''SFC'' False airspace =
      Some (True, airspace\<lparr>baseAltitude := AltFt 0 False\<rparr>)"
    by (simp add: parse_simps SetAltitude_def)
  have c9: "ParseAltitude ''UNLIM'' True airspace =
      Some (True, airspace\<lparr>topAltitude := Unlimited\<rparr>)"
    by (simp add: parse_simps SetAltitude_def)
  have c10: "ParseAltitude ''UNLIM'' False airspace =
      Some (True, airspace\<lparr>baseAltitude := Unlimited\<rparr>)"
    by (simp add: parse_simps SetAltitude_def)
  have c11: "ParseAltitude ''UNLIMITED'' True airspace =
      Some (True, airspace\<lparr>topAltitude := Unlimited\<rparr>)"
    by (simp add: parse_simps SetAltitude_def)
  have c12: "ParseAltitude ''UNLIMITED'' False airspace =
      Some (True, airspace\<lparr>baseAltitude := Unlimited\<rparr>)"
    by (simp add: parse_simps SetAltitude_def)
  have c13: "ParseAltitude ''UNL'' True airspace =
      Some (True, airspace\<lparr>topAltitude := Unlimited\<rparr>)"
    by (simp add: parse_simps SetAltitude_def)
  have c14: "ParseAltitude ''UNL'' False airspace =
      Some (True, airspace\<lparr>baseAltitude := Unlimited\<rparr>)"
    by (simp add: parse_simps SetAltitude_def)
  have c15: "ParseAltitude ''3500 AMSL'' True airspace =
      Some (True, airspace\<lparr>topAltitude := AltFt 3500 True\<rparr>)"
    by (simp add: parse_simps SetAltitude_def)
  have c16: "ParseAltitude ''3500 AMSL'' False airspace =
      Some (True, airspace\<lparr>baseAltitude := AltFt 3500 True\<rparr>)"
    by (simp add: parse_simps SetAltitude_def)
  have c17: "ParseAltitude ''3500 ft'' True airspace =
      Some (True, airspace\<lparr>topAltitude := AltFt 3500 True\<rparr>)"
    by (simp add: parse_simps SetAltitude_def)
  have c18: "ParseAltitude ''3500 ft'' False airspace =
      Some (True, airspace\<lparr>baseAltitude := AltFt 3500 True\<rparr>)"
    by (simp add: parse_simps SetAltitude_def)
  have c19: "ParseAltitude ''3500'' True airspace =
      Some (True, airspace\<lparr>topAltitude := AltFt 3500 True\<rparr>)"
    by (simp add: parse_simps SetAltitude_def)
  have c20: "ParseAltitude ''3500'' False airspace =
      Some (True, airspace\<lparr>baseAltitude := AltFt 3500 True\<rparr>)"
    by (simp add: parse_simps SetAltitude_def)
  have c21: "map_option (\<lambda>st. (valueFound st, typeFound st, unitFound st, isInFeet st, isAMSL st))
      (scan ''FL100'') = Some (True, True, False, True, True)"
    by (simp add: parse_simps SetAltitude_def)
  have c22: "map_option (\<lambda>st. (valueFound st, typeFound st, unitFound st, isInFeet st, isAMSL st))
      (scan ''2000ft AGL'') = Some (True, True, True, True, False)"
    by (simp add: parse_simps SetAltitude_def)
  have c23: "map_option (\<lambda>st. (valueFound st, typeFound st, unitFound st, isInFeet st, isAMSL st))
      (scan ''GND'') = Some (True, True, True, True, False)"
    by (simp add: parse_simps SetAltitude_def)
  have c24: "map_option (\<lambda>st. (valueFound st, typeFound st, unitFound st, isInFeet st, isAMSL st))
      (scan ''SFC'') = Some (True, True, True, True, False)"
    by (simp add: parse_simps SetAltitude_def)
  have c25: "map_option (\<lambda>st. (valueFound st, typeFound st, unitFound st, isInFeet st, isAMSL st))
      (scan ''3500 AMSL'') = Some (True, True, False, True, True)"
    by (simp add: parse_simps SetAltitude_def)
  have c26: "map_option (\<lambda>st. (valueFound st, typeFound st, unitFound st, isInFeet st, isAMSL st))
      (scan ''3500 ft'') = Some (True, False, True, True, True)"
    by (simp add: parse_simps SetAltitude_def)
  have c27: "map_option (\<lambda>st. (valueFound st, typeFound st, unitFound st, isInFeet st, isAMSL st))
      (scan ''3500'') = Some (True, False, False, True, True)"
    by (simp add: parse_simps SetAltitude_def)
  have c28: "map_option val (scan ''GND'') = Some 0"
    by (simp add: parse_simps SetAltitude_def)
  have c29: "map_option val (scan ''SFC'') = Some 0"
    by (simp add: parse_simps SetAltitude_def)
  have c30: "map_option isFL (scan ''FL100'') = Some True"
    by (simp add: parse_simps SetAltitude_def)
  from c1 c2 c3 c4 c5 c6 c7 c8 c9 c10 c11 c12 c13 c14 c15 c16 c17 c18 c19 c20 c21 c22 c23 c24 c25 c26 c27 c28 c29 c30 show ?thesis by blast
qed

text \<open>
  C9: a text of exactly one character never enters the loop, which starts at index 1, so
  no value is found and the parse fails, whatever the character is.
\<close>

theorem ParseAltitude_single_character:
  "length text = 1 \<Longrightarrow> ParseAltitude text isTop airspace = Some (False, airspace)"
  by (auto simp: ParseAltitude_def scan_def)

text \<open>C9 at the single digit \<open>5\<close>.\<close>

theorem ParseAltitude_single_character_witness:
  "length ''5'' = 1 \<and>
   ParseAltitude ''5'' True \<lparr>airspaceName = ''CTR'', topAltitude = Unset, baseAltitude = Unset\<rparr> =
     Some (False, \<lparr>airspaceName = ''CTR'', topAltitude = Unset, baseAltitude = Unset\<rparr>)"
  using ParseAltitude_single_character [of "''5''" True
      "\<lparr>airspaceName = ''CTR'', topAltitude = Unset, baseAltitude = Unset\<rparr>"]
  by simp

section \<open>Orchestrator and filter: the claims\<close>

text \<open>
  C10: \<open>UnloadAirspaces\<close> clears the output file whatever the waypoints are;
  \<open>UnloadWaypoints\<close> clears it only when no airspace is loaded. Apart from the output
  file and the completion flag, each of the two changes its own collection only.
\<close>

theorem Unload_frame:
  "UnloadAirspaces st = st\<lparr>conversionDone := False, airspaces := [], outputFile := []\<rparr> \<and>
   UnloadWaypoints st =
     st\<lparr>conversionDone := False, waypoints := [],
        outputFile := (if airspaces st = [] then [] else outputFile st)\<rparr> \<and>
   outputFile (UnloadAirspaces st) = [] \<and>
   waypoints (UnloadAirspaces st) = waypoints st \<and>
   airspaces (UnloadWaypoints st) = airspaces st \<and>
   outputFile (UnloadWaypoints st) = (if airspaces st = [] then [] else outputFile st)"
  by (simp add: UnloadAirspaces_def UnloadWaypoints_def Let_def)

text \<open>
  C7: the full-globe box is answered with success before anything else is looked at, and
  the converter is left as it was. A box that the validation of \<open>Geometry::Limits\<close>
  rejects (and that is not the full-globe box, which never reaches the validation) is
  answered with failure, and the converter is left as it was.
\<close>

theorem FilterOnLatLonLimits_no_filtering:
  "FilterOnLatLonLimits E 90 (- 90) (- 180) 180 st = (True, st) \<and>
   (\<not> Limits_IsValid E (topLat, bottomLat, leftLon, rightLon) \<and>
    (topLat, bottomLat, leftLon, rightLon) \<noteq> (90, - 90, - 180, 180) \<longrightarrow>
      FilterOnLatLonLimits E topLat bottomLat leftLon rightLon st = (False, st))"
  by (auto simp: FilterOnLatLonLimits_def)

text \<open>C7 in the small world: the full-globe box, and a box whose bottom is above its top.\<close>

theorem FilterOnLatLonLimits_no_filtering_witness:
  "FilterOnLatLonLimits test_env 90 (- 90) (- 180) 180
     (AirspaceConverter\<lparr>waypoints := [(5, an_airfield)]\<rparr>) =
     (True, AirspaceConverter\<lparr>waypoints := [(5, an_airfield)]\<rparr>) \<and>
   \<not> Limits_IsValid test_env (10, 20, 0, 5) \<and>
   FilterOnLatLonLimits test_env 10 20 0 5 (AirspaceConverter\<lparr>waypoints := [(5, an_airfield)]\<rparr>) =
     (False, AirspaceConverter\<lparr>waypoints := [(5, an_airfield)]\<rparr>)"
  using FilterOnLatLonLimits_no_filtering [of test_env
      "AirspaceConverter\<lparr>waypoints := [(5, an_airfield)]\<rparr>" 10 20 0 5]
  by (simp add: test_env_def)

lemma UnloadWaypoints_flag [simp]: "conversionDone (UnloadWaypoints st) = False"
  by (simp add: UnloadWaypoints_def Let_def)

lemma UnloadAirspaces_flag [simp]: "conversionDone (UnloadAirspaces st) = False"
  by (simp add: UnloadAirspaces_def)

lemma LoadAirspaces_files_flag:
  "LoadAirspaces_files E ty n0 files st w = Some (st', w') \<Longrightarrow>
     conversionDone st' = conversionDone st"
proof (induction files arbitrary: st w)
  case Nil
  then show ?case by simp
next
  case (Cons inputFile rest)
  from Cons.prems show ?case
    by (auto simp: Let_def split: if_splits option.splits prod.splits dest!: Cons.IH)
qed

lemma LoadWaypoints_files_flag:
  "conversionDone (fst (LoadWaypoints_files E files st w)) = conversionDone st"
proof (induction files arbitrary: st w)
  case Nil
  then show ?case by simp
next
  case (Cons inputFile rest)
  show ?case
    by (auto simp: Let_def Cons.IH split: if_splits option.splits prod.splits)
qed

lemma LoadAirspaces_flag:
  assumes "airspaceFiles st \<noteq> []" "LoadAirspaces E ty st w = Some (st', w')"
  shows "\<not> conversionDone st'"
  using assms
  by (auto simp: LoadAirspaces_def Let_def split: option.splits dest!: LoadAirspaces_files_flag)

lemma LoadWaypoints_flag:
  assumes "waypointFiles st \<noteq> []"
  shows "\<not> conversionDone (fst (LoadWaypoints E st w))"
proof -
  obtain st1 w1 where
    r: "LoadWaypoints_files E (waypointFiles st) (st\<lparr>conversionDone := False\<rparr>) w = (st1, w1)"
    by fastforce
  have "conversionDone (fst (LoadWaypoints_files E (waypointFiles st)
          (st\<lparr>conversionDone := False\<rparr>) w)) = False"
    by (simp add: LoadWaypoints_files_flag)
  with r have "\<not> conversionDone st1" by simp
  with assms r show ?thesis
    by (simp add: LoadWaypoints_def)
qed

lemma Convert_flag:
  assumes "Convert E st w = Some (b, st', w')"
  shows "conversionDone st' = b \<and> b = writer_reports_success E st w"
  using assms
  by (auto simp: Convert_def writer_reports_success_def GetOutputType_def Let_def
      split: OutputType.splits prod.splits if_splits)

lemma convert_all_flag:
  assumes "convert_all E d cc st w = Some (st', w')"
  shows "\<not> conversionDone st'"
  using assms by (auto simp: convert_all_def split: option.splits)

lemma convert_country_flag:
  assumes "convert_country E d rec st w = Some (st', w')"
  shows "\<not> conversionDone st'"
  using assms
  by (auto simp: convert_country_def Let_def split: option.splits prod.splits
      dest: convert_all_flag)

lemma convert_countries_flag:
  assumes "convert_countries E d idx st w = Some (st', w')" "idx \<noteq> []"
  shows "\<not> conversionDone st'"
  using assms
proof (induction idx arbitrary: st w)
  case Nil
  then show ?case by simp
next
  case (Cons rec rest)
  from Cons.prems(1) obtain st1 w1 where
    1: "convert_country E d rec st w = Some (st1, w1)" and
    2: "convert_countries E d rest st1 w1 = Some (st', w')"
    by (auto split: option.splits)
  show ?case
  proof (cases "rest = []")
    case True
    with 2 have "st' = st1" by simp
    with 1 show ?thesis by (simp add: convert_country_flag)
  next
    case False
    with 2 show ?thesis by (rule Cons.IH)
  qed
qed

lemma ConvertOpenAIPdir_flag:
  assumes "ConvertOpenAIPdir E d st w = Some (b, st', w')" "conversionDone st'"
  shows "conversionDone st"
proof (rule ccontr)
  assume n: "\<not> conversionDone st"
  have u: "\<not> conversionDone (UnloadWaypoints (UnloadAirspaces st))"
    by simp
  from assms(1) n u assms(2) show False
    by (auto simp: ConvertOpenAIPdir_def Let_def split: if_splits option.splits
        dest: convert_countries_flag)
qed

lemma LoadTerrainRasterMaps_flag:
  "conversionDone (fst (LoadTerrainRasterMaps E st w)) \<Longrightarrow> conversionDone st"
  by (simp add: LoadTerrainRasterMaps_def split: if_splits)

lemma FilterOnLatLonLimits_flag:
  "conversionDone (snd (FilterOnLatLonLimits E t b l r st)) = conversionDone st"
  by (simp add: FilterOnLatLonLimits_def Let_def)

lemma suggested_output_returns:
  assumes "NDEBUG E \<or> (ty \<noteq> SeeYou_Format \<and> ty \<noteq> Unknown_Format)"
  shows "\<exists>out. suggested_output E ty f = Some out"
  using assms by (cases ty) (auto simp: suggested_output_def)

lemma LoadAirspaces_files_returns:
  assumes "NDEBUG E \<or> (ty \<noteq> SeeYou_Format \<and> ty \<noteq> Unknown_Format)"
  shows "\<exists>st' w'. LoadAirspaces_files E ty n0 files st w = Some (st', w')"
proof (induction files arbitrary: st w)
  case Nil
  show ?case by simp
next
  case (Cons inputFile rest)
  obtain out where "suggested_output E ty inputFile = Some out"
    using suggested_output_returns [OF assms] by blast
  then show ?case
    by (auto simp: Let_def Cons.IH split: prod.splits option.splits)
qed

lemma LoadAirspaces_returns:
  assumes "NDEBUG E \<or> (ty \<noteq> SeeYou_Format \<and> ty \<noteq> Unknown_Format)"
  shows "\<exists>st' w'. LoadAirspaces E ty st w = Some (st', w')"
proof (cases "airspaceFiles st = []")
  case True
  then show ?thesis by (simp add: LoadAirspaces_def)
next
  case False
  obtain st' w' where "LoadAirspaces_files E ty (length (airspaces st))
      (airspaceFiles st) (st\<lparr>conversionDone := False\<rparr>) w = Some (st', w')"
    using LoadAirspaces_files_returns [OF assms, of "length (airspaces st)" "airspaceFiles st"
        "st\<lparr>conversionDone := False\<rparr>" w] by auto
  with False show ?thesis by (simp add: LoadAirspaces_def)
qed

lemma Convert_returns:
  assumes "NDEBUG E \<or> (outputFile st \<noteq> [] \<and> DetermineType (outputFile st) \<noteq> Unknown_Format)"
  shows "\<exists>ok st' w'. Convert E st w = Some (ok, st', w')"
  using assms
  by (auto simp: Convert_def GetOutputType_def Let_def split: OutputType.splits prod.splits)

text \<open>
  C1, amended: the flag is false after every \<open>UnloadAirspaces\<close> and \<open>UnloadWaypoints\<close>,
  and after every \<open>LoadAirspaces\<close> and \<open>LoadWaypoints\<close> whose list of pending files is not
  empty; a load with an empty list returns at once and leaves the converter, the flag
  included, as it was. \<open>Convert\<close> leaves the flag equal to what its writer (for the Garmin
  format: the Polish writer and then the external tool) reports, and no other operation
  turns a false flag into a true one. \<open>LoadAirspaces\<close> and \<open>Convert\<close> do return
  unless an \<open>assert\<close> stops them: the first whenever the suggested type is KMZ, OpenAir,
  Polish or Garmin, the second whenever the output file is set and its type is known.
  All this holds in every state of the converter, so after every sequence of operations.
\<close>

theorem conversionDone_lifecycle:
  "\<not> conversionDone (UnloadAirspaces st) \<and>
   \<not> conversionDone (UnloadWaypoints st) \<and>
   (\<forall>st' w'. airspaceFiles st \<noteq> [] \<and> LoadAirspaces E ty st w = Some (st', w') \<longrightarrow>
      \<not> conversionDone st') \<and>
   (waypointFiles st \<noteq> [] \<longrightarrow> \<not> conversionDone (fst (LoadWaypoints E st w))) \<and>
   (airspaceFiles st = [] \<longrightarrow> LoadAirspaces E ty st w = Some (st, w)) \<and>
   (waypointFiles st = [] \<longrightarrow> LoadWaypoints E st w = (st, w)) \<and>
   (\<forall>ok st' w'. Convert E st w = Some (ok, st', w') \<longrightarrow>
      conversionDone st' = ok \<and> ok = writer_reports_success E st w) \<and>
   (conversionDone (fst (LoadTerrainRasterMaps E st w)) \<longrightarrow> conversionDone st) \<and>
   \<not> conversionDone (fst (UnloadRasterMaps E st w)) \<and>
   conversionDone (AddAirspaceFile f st) = conversionDone st \<and>
   conversionDone (AddWaypointFile f st) = conversionDone st \<and>
   conversionDone (snd (FilterOnLatLonLimits E t b l r st)) = conversionDone st \<and>
   (\<forall>ok st' w'. ConvertOpenAIPdir E d st w = Some (ok, st', w') \<and> conversionDone st' \<longrightarrow>
      conversionDone st) \<and>
   (NDEBUG E \<or> (ty \<noteq> SeeYou_Format \<and> ty \<noteq> Unknown_Format) \<longrightarrow>
      (\<exists>st' w'. LoadAirspaces E ty st w = Some (st', w'))) \<and>
   (NDEBUG E \<or> (outputFile st \<noteq> [] \<and> DetermineType (outputFile st) \<noteq> Unknown_Format) \<longrightarrow>
      (\<exists>ok st' w'. Convert E st w = Some (ok, st', w')))"
proof (intro conjI allI impI)
  show "\<not> conversionDone (UnloadAirspaces st)" by simp
  show "\<not> conversionDone (UnloadWaypoints st)" by simp
  show "\<not> conversionDone st'"
    if "airspaceFiles st \<noteq> [] \<and> LoadAirspaces E ty st w = Some (st', w')" for st' w'
    using that by (auto dest: LoadAirspaces_flag)
  show "\<not> conversionDone (fst (LoadWaypoints E st w))" if "waypointFiles st \<noteq> []"
    using that by (rule LoadWaypoints_flag)
  show "LoadAirspaces E ty st w = Some (st, w)" if "airspaceFiles st = []"
    using that by (simp add: LoadAirspaces_def)
  show "LoadWaypoints E st w = (st, w)" if "waypointFiles st = []"
    using that by (simp add: LoadWaypoints_def)
  show "conversionDone st' = ok" if "Convert E st w = Some (ok, st', w')" for ok st' w'
    using Convert_flag [OF that] by simp
  show "ok = writer_reports_success E st w" if "Convert E st w = Some (ok, st', w')" for ok st' w'
    using Convert_flag [OF that] by simp
  show "conversionDone st" if "conversionDone (fst (LoadTerrainRasterMaps E st w))"
    using that by (rule LoadTerrainRasterMaps_flag)
  show "\<not> conversionDone (fst (UnloadRasterMaps E st w))"
    by (simp add: UnloadRasterMaps_def)
  show "conversionDone (AddAirspaceFile f st) = conversionDone st"
    by (simp add: AddAirspaceFile_def)
  show "conversionDone (AddWaypointFile f st) = conversionDone st"
    by (simp add: AddWaypointFile_def)
  show "conversionDone (snd (FilterOnLatLonLimits E t b l r st)) = conversionDone st"
    by (rule FilterOnLatLonLimits_flag)
  show "conversionDone st"
    if "ConvertOpenAIPdir E d st w = Some (ok, st', w') \<and> conversionDone st'" for ok st' w'
    using that by (auto dest: ConvertOpenAIPdir_flag)
  show "\<exists>st' w'. LoadAirspaces E ty st w = Some (st', w')"
    if "NDEBUG E \<or> (ty \<noteq> SeeYou_Format \<and> ty \<noteq> Unknown_Format)"
    using that by (rule LoadAirspaces_returns)
  show "\<exists>ok st' w'. Convert E st w = Some (ok, st', w')"
    if "NDEBUG E \<or> (outputFile st \<noteq> [] \<and> DetermineType (outputFile st) \<noteq> Unknown_Format)"
    using that by (rule Convert_returns)
qed

lemma extension_a_cup: "extension ''a.cup'' = ''.cup''"
  using extension_append [of "''a''" "''.cup''"] by (simp add: is_dot_ext_def NUL_def)

lemma DetermineType_a_kmz: "DetermineType ''a.kmz'' = KMZ_Format"
  using DetermineType_append [of "''a''" "''.kmz''"]
  by (simp add: is_dot_ext_def NUL_def iequals_def)

lemma LoadWaypoints_a_cup:
  "LoadWaypoints test_env (AddWaypointFile ''a.cup'' AirspaceConverter) [] =
     (AirspaceConverter\<lparr>waypoints := [(5, an_airfield)], outputFile := ''a.kmz''\<rparr>, [])"
  by (simp add: LoadWaypoints_def AddWaypointFile_def AirspaceConverter_def extension_a_cup
      iequals_def test_env_def replace_extension_def)

lemma Convert_a_kmz:
  "Convert test_env (AirspaceConverter\<lparr>waypoints := [(5, an_airfield)], outputFile := ''a.kmz''\<rparr>) [] =
     Some (True,
       AirspaceConverter\<lparr>conversionDone := True, waypoints := [(5, an_airfield)],
         outputFile := ''a.kmz''\<rparr>,
       [(''a.kmz'', [], [(5, an_airfield)])])"
  by (simp add: Convert_def GetOutputType_def AirspaceConverter_def DetermineType_a_kmz
      test_env_def)

text \<open>
  C1, as stated, fails: a new converter loads \<open>a.cup\<close> and converts it with success, so
  the flag is true; \<open>LoadAirspaces\<close>, called then with no pending airspace file, returns
  at its first line and the flag is still true.
\<close>

theorem LoadAirspaces_counterexample:
  "LoadWaypoints test_env (AddWaypointFile ''a.cup'' AirspaceConverter) [] =
     (AirspaceConverter\<lparr>waypoints := [(5, an_airfield)], outputFile := ''a.kmz''\<rparr>, []) \<and>
   Convert test_env (AirspaceConverter\<lparr>waypoints := [(5, an_airfield)], outputFile := ''a.kmz''\<rparr>) [] =
     Some (True,
       AirspaceConverter\<lparr>conversionDone := True, waypoints := [(5, an_airfield)],
         outputFile := ''a.kmz''\<rparr>,
       [(''a.kmz'', [], [(5, an_airfield)])]) \<and>
   LoadAirspaces test_env KMZ_Format
     (AirspaceConverter\<lparr>conversionDone := True, waypoints := [(5, an_airfield)],
        outputFile := ''a.kmz''\<rparr>)
     [(''a.kmz'', [], [(5, an_airfield)])] =
     Some (AirspaceConverter\<lparr>conversionDone := True, waypoints := [(5, an_airfield)],
             outputFile := ''a.kmz''\<rparr>,
           [(''a.kmz'', [], [(5, an_airfield)])]) \<and>
   conversionDone (AirspaceConverter\<lparr>conversionDone := True, waypoints := [(5, an_airfield)],
     outputFile := ''a.kmz''\<rparr>)"
  by (simp add: LoadWaypoints_a_cup Convert_a_kmz)
    (simp add: LoadAirspaces_def AirspaceConverter_def)

lemma extension_a_txt: "extension ''a.txt'' = ''.txt''"
  using extension_append [of "''a''" "''.txt''"] by (simp add: is_dot_ext_def NUL_def)

lemma LoadAirspaces_a_txt:
  "LoadAirspaces test_env KMZ_Format
     (AddAirspaceFile ''a.txt''
        (AirspaceConverter\<lparr>conversionDone := True, waypoints := [(5, an_airfield)],
           outputFile := ''a.kmz''\<rparr>))
     [(''a.kmz'', [], [(5, an_airfield)])] =
     Some (AirspaceConverter\<lparr>airspaces := [(1, an_airspace)], waypoints := [(5, an_airfield)],
             outputFile := ''a.kmz''\<rparr>,
           [(''a.kmz'', [], [(5, an_airfield)])])"
  by (simp add: LoadAirspaces_def AddAirspaceFile_def AirspaceConverter_def extension_a_txt
      iequals_def test_env_def Let_def)

text \<open>
  The amended C1 on the same run: the load of \<open>a.cup\<close> leaves the flag false, the
  conversion sets it as the writer reports, a \<open>LoadAirspaces\<close> with nothing pending
  changes nothing, and one with \<open>a.txt\<close> pending resets the flag.
\<close>

theorem conversionDone_lifecycle_witness:
  "waypointFiles (AddWaypointFile ''a.cup'' AirspaceConverter) \<noteq> [] \<and>
   \<not> conversionDone (fst (LoadWaypoints test_env (AddWaypointFile ''a.cup'' AirspaceConverter) [])) \<and>
   writer_reports_success test_env
     (AirspaceConverter\<lparr>waypoints := [(5, an_airfield)], outputFile := ''a.kmz''\<rparr>) [] \<and>
   airspaceFiles (AirspaceConverter\<lparr>waypoints := [(5, an_airfield)], outputFile := ''a.kmz''\<rparr>) = [] \<and>
   LoadAirspaces test_env KMZ_Format
     (AirspaceConverter\<lparr>waypoints := [(5, an_airfield)], outputFile := ''a.kmz''\<rparr>) [] =
     Some (AirspaceConverter\<lparr>waypoints := [(5, an_airfield)], outputFile := ''a.kmz''\<rparr>, []) \<and>
   airspaceFiles (AddAirspaceFile ''a.txt''
     (AirspaceConverter\<lparr>conversionDone := True, waypoints := [(5, an_airfield)],
        outputFile := ''a.kmz''\<rparr>)) \<noteq> [] \<and>
   \<not> conversionDone (AirspaceConverter\<lparr>airspaces := [(1, an_airspace)],
     waypoints := [(5, an_airfield)], outputFile := ''a.kmz''\<rparr>)"
proof -
  note t1 = conversionDone_lifecycle [of "AddWaypointFile ''a.cup'' AirspaceConverter" test_env
      KMZ_Format "[]"]
  note t2 = conversionDone_lifecycle [of
      "AirspaceConverter\<lparr>waypoints := [(5, an_airfield)], outputFile := ''a.kmz''\<rparr>" test_env
      KMZ_Format "[]"]
  note t3 = conversionDone_lifecycle [of
      "AddAirspaceFile ''a.txt''
         (AirspaceConverter\<lparr>conversionDone := True, waypoints := [(5, an_airfield)],
            outputFile := ''a.kmz''\<rparr>)" test_env KMZ_Format "[(''a.kmz'', [], [(5, an_airfield)])]"]
  have a: "waypointFiles (AddWaypointFile ''a.cup'' AirspaceConverter) \<noteq> []"
    by (simp add: AddWaypointFile_def)
  have b: "airspaceFiles (AirspaceConverter\<lparr>waypoints := [(5, an_airfield)], outputFile := ''a.kmz''\<rparr>) = []"
    by (simp add: AirspaceConverter_def)
  have c: "airspaceFiles (AddAirspaceFile ''a.txt''
     (AirspaceConverter\<lparr>conversionDone := True, waypoints := [(5, an_airfield)],
        outputFile := ''a.kmz''\<rparr>)) \<noteq> []"
    by (simp add: AddAirspaceFile_def)
  from t1 a have 1: "\<not> conversionDone (fst (LoadWaypoints test_env
      (AddWaypointFile ''a.cup'' AirspaceConverter) []))"
    by blast
  from t2 Convert_a_kmz have 2: "writer_reports_success test_env
     (AirspaceConverter\<lparr>waypoints := [(5, an_airfield)], outputFile := ''a.kmz''\<rparr>) []"
    by blast
  from t2 b have 3: "LoadAirspaces test_env KMZ_Format
     (AirspaceConverter\<lparr>waypoints := [(5, an_airfield)], outputFile := ''a.kmz''\<rparr>) [] =
     Some (AirspaceConverter\<lparr>waypoints := [(5, an_airfield)], outputFile := ''a.kmz''\<rparr>, [])"
    by blast
  from t3 c LoadAirspaces_a_txt have 4: "\<not> conversionDone (AirspaceConverter\<lparr>airspaces :=
      [(1, an_airspace)], waypoints := [(5, an_airfield)], outputFile := ''a.kmz''\<rparr>)"
    by blast
  from a b c 1 2 3 4 show ?thesis by blast
qed

section \<open>More facts about paths\<close>




lemma set_after_sep: "set (after_sep p) \<subseteq> set p"
  by (auto simp: after_sep_def dest: set_takeWhileD)

lemma nul_free_after_sep: "nul_free p \<Longrightarrow> nul_free (after_sep p)"
  using set_after_sep by (auto simp: nul_free_def)






lemma path_append_nonempty: "q \<noteq> [] \<Longrightarrow> path_append d q \<noteq> []"
  by (simp add: path_append_def)






section \<open>Batch directory pipeline: the claims\<close>



















lemma aip_paths:
  "path_append ''aip'' ''aa_wpt.aip'' = ''aip/aa_wpt.aip''"
  "path_append ''aip'' ''aa.kmz'' = ''aip/aa.kmz''"
  by (simp_all add: path_append_def is_separator_def)

lemma aip_extension: "extension ''aip/aa_wpt.aip'' = ''.aip''"
  using extension_append [of "''aip/aa_wpt''" "''.aip''"] by (simp add: is_dot_ext_def NUL_def)

lemma aip_replace:
  "replace_extension ''aip/aa_wpt.aip'' ''.cup'' = ''aip/aa_wpt.cup''"
  "replace_extension ''aip/aa_wpt.aip'' ''.kmz'' = ''aip/aa_wpt.kmz''"
  by (simp_all add: replace_extension_def aip_extension)

lemma aip_types:
  "DetermineType ''aip/aa_wpt.cup'' = SeeYou_Format"
  "DetermineType ''aip/aa.kmz'' = KMZ_Format"
  using DetermineType_append [of "''aip/aa_wpt''" "''.cup''"]
    DetermineType_append [of "''aip/aa''" "''.kmz''"]
  by (simp_all add: is_dot_ext_def NUL_def iequals_def to_upper_def)

lemma aip_stem: "stem ''aip/aa_wpt.aip'' = ''aa_wpt''"
  by (simp add: stem_def path_filename_def filename_pos_def rfind_def c_str_def is_separator_def
      is_root_separator_def NUL_def)

lemma aip_index:
  "build_index [\<lparr>entry_path = ''aip/aa_wpt.aip'', is_regular_file = True, file_size = 512\<rparr>] [] =
     [(''aa'', (False, False, False, True))]"
  by (simp add: aip_stem aip_extension iequals_def newContent_def ends_with_def)


text \<open>
  The second load of the airfields does not depend on \<open>nav\<close>: for a country with a wpt
  file and no nav file the iteration is the block \<open>if (wpt)\<close>, then \<open>LoadWaypoints\<close> on
  the same file once more, then the KMZ conversion.
\<close>

lemma convert_country_wpt_only:
  "convert_country E d (cc, (False, hot, False, True)) st w =
     (case convert_wpt E d cc st w of
        None \<Rightarrow> None
      | Some (st2, w2) \<Rightarrow>
          (let (st4, w4) =
                 LoadWaypoints E (AddWaypointFile (path_append d (cc @ ''_wpt.aip'')) st2) w2
           in convert_all E d cc st4 w4))"
  by (simp add: convert_country_def reload_airfields_def path_append_nonempty Let_def
      split: option.splits)

lemma test_env_fields:
  "NDEBUG test_env = False"
  "OpenAIP_ReadWaypoints test_env f a p w = (True, a, p @ [(5, an_airfield)], w)"
  "SeeYou_Read test_env f p w = (True, p @ [(5, an_airfield)], w)"
  "KML_Write test_env f a p w = (True, w @ [(f, a, p)])"
  "SeeYou_Write test_env f p w = (True, w @ [(f, [], p)])"
  "is_directory test_env d w = (d = ''aip'')"
  "directory_entries test_env ''aip'' w =
     [\<lparr>entry_path = ''aip/aa_wpt.aip'', is_regular_file = True, file_size = 512\<rparr>]"
  by (simp_all add: test_env_def)

lemma aip_convert_wpt:
  "convert_wpt test_env ''aip'' ''aa'' AirspaceConverter [] =
     Some (AirspaceConverter\<lparr>conversionDone := True, waypoints := [(5, an_airfield)],
             outputFile := ''aip/aa_wpt.cup''\<rparr>,
           [(''aip/aa_wpt.cup'', [], [(5, an_airfield)])])"
  by (simp add: convert_wpt_def aip_paths LoadWaypoints_def AddWaypointFile_def
      AirspaceConverter_def aip_extension iequals_def to_upper_def test_env_fields aip_replace
      Convert_def GetOutputType_def aip_types Let_def)

lemma aip_reload:
  "LoadWaypoints test_env
     (AddWaypointFile ''aip/aa_wpt.aip''
        (AirspaceConverter\<lparr>conversionDone := True, waypoints := [(5, an_airfield)],
           outputFile := ''aip/aa_wpt.cup''\<rparr>))
     [(''aip/aa_wpt.cup'', [], [(5, an_airfield)])] =
     (AirspaceConverter\<lparr>waypoints := [(5, an_airfield), (5, an_airfield)],
        outputFile := ''aip/aa_wpt.cup''\<rparr>,
      [(''aip/aa_wpt.cup'', [], [(5, an_airfield)])])"
  by (simp add: LoadWaypoints_def AddWaypointFile_def AirspaceConverter_def aip_extension
      iequals_def to_upper_def test_env_fields Let_def)

lemma aip_convert_all:
  "convert_all test_env ''aip'' ''aa''
     (AirspaceConverter\<lparr>waypoints := [(5, an_airfield), (5, an_airfield)],
        outputFile := ''aip/aa_wpt.cup''\<rparr>)
     [(''aip/aa_wpt.cup'', [], [(5, an_airfield)])] =
     Some (AirspaceConverter,
           [(''aip/aa_wpt.cup'', [], [(5, an_airfield)]),
            (''aip/aa.kmz'', [], [(5, an_airfield), (5, an_airfield)])])"
  by (simp add: convert_all_def aip_paths Convert_def GetOutputType_def aip_types
      test_env_fields AirspaceConverter_def UnloadAirspaces_def UnloadWaypoints_def Let_def)

lemma aip_run:
  "ConvertOpenAIPdir test_env ''aip'' AirspaceConverter [] =
     Some (True, AirspaceConverter,
           [(''aip/aa_wpt.cup'', [], [(5, an_airfield)]),
            (''aip/aa.kmz'', [], [(5, an_airfield), (5, an_airfield)])])"
proof -
  have d: "is_directory test_env ''aip'' []"
    "directory_entries test_env ''aip'' [] =
       [\<lparr>entry_path = ''aip/aa_wpt.aip'', is_regular_file = True, file_size = 512\<rparr>]"
    by (simp_all add: test_env_fields)
  have u: "UnloadWaypoints (UnloadAirspaces AirspaceConverter) = AirspaceConverter"
    by (simp add: UnloadWaypoints_def UnloadAirspaces_def AirspaceConverter_def)
  have c: "convert_country test_env ''aip'' (''aa'', (False, False, False, True))
      AirspaceConverter [] =
     Some (AirspaceConverter,
           [(''aip/aa_wpt.cup'', [], [(5, an_airfield)]),
            (''aip/aa.kmz'', [], [(5, an_airfield), (5, an_airfield)])])"
    by (simp add: convert_country_wpt_only aip_convert_wpt aip_paths aip_reload aip_convert_all)
  show ?thesis
    by (simp add: ConvertOpenAIPdir_def d u aip_index c del: build_index.simps)
qed

text \<open>
  C2: a directory that holds \<open>aa_wpt.aip\<close> and no nav file. The reader yields one
  airfield each time it reads the file. The claim asks that the file is not read a second
  time and that the combined output holds the airfield once; the code reads it again
  before the KMZ conversion, and the KMZ writer is handed the airfield twice.
\<close>

theorem ConvertOpenAIPdir_airfields_twice:
  "directory_entries test_env ''aip'' [] =
     [\<lparr>entry_path = ''aip/aa_wpt.aip'', is_regular_file = True, file_size = 512\<rparr>] \<and>
   OpenAIP_ReadWaypoints test_env ''aip/aa_wpt.aip'' [] [] [] = (True, [], [(5, an_airfield)], []) \<and>
   ConvertOpenAIPdir test_env ''aip'' AirspaceConverter [] =
     Some (True, AirspaceConverter,
           [(''aip/aa_wpt.cup'', [], [(5, an_airfield)]),
            (''aip/aa.kmz'', [], [(5, an_airfield), (5, an_airfield)])])"
  by (simp add: aip_run test_env_fields)



end
